theory Spec2Isabelle
  imports Main
begin

section \<open>The process-wide logger (logrus) and the process state\<close>

text \<open>
  The source file is \<^verbatim>\<open>main.go\<close>. It uses the global logrus logger, the operating
  system (environment variables, the log file, signals), \<^verbatim>\<open>database/sql\<close> and the HTTP
  server. Everything the program does to the outside world is recorded, in order, as an
  event of the process state; everything the outside world answers is a field of the
  environment \<open>env\<close>.
\<close>

datatype Level =
  PanicLevel | FatalLevel | ErrorLevel | WarnLevel | InfoLevel | DebugLevel | TraceLevel

text \<open>logrus numbers its levels from \<open>PanicLevel = 0\<close> to \<open>TraceLevel = 6\<close>.\<close>

fun severity :: "Level \<Rightarrow> nat" where
  "severity PanicLevel = 0"
| "severity FatalLevel = 1"
| "severity ErrorLevel = 2"
| "severity WarnLevel = 3"
| "severity InfoLevel = 4"
| "severity DebugLevel = 5"
| "severity TraceLevel = 6"

record Entry =
  Lvl :: Level
  Message :: string
  Data :: "(string \<times> string) list"

datatype writer = Stderr | LogFileWriter

record os_File =
  fileName :: string
  fileClosed :: bool

text \<open>The one closure that \<^verbatim>\<open>setupLogger\<close> registers with \<^verbatim>\<open>logrus.RegisterExitHandler\<close>.\<close>

datatype exit_handler = CloseLogFile

text \<open>
  Modelled from the spec: the type of a version record is not declared in \<^verbatim>\<open>main.go\<close>.
  The spec gives it an "identifier/string"; what else the store holds of a record is not
  read here.
\<close>

record Version =
  versionId :: string

text \<open>
  The persistent store behind a connection: either it is in an outage (with a cause), or
  it answers with the version records it holds. \<open>versions\<close> lists them in the
  chronological order of their insertion: the record inserted first comes first, the one
  inserted last (the newest) comes last.
\<close>

record pg_server =
  outage :: "string option"
  versions :: "Version list"

text \<open>
  A \<^verbatim>\<open>*sql.DB\<close> object. The program holds such objects by pointer, and \<^verbatim>\<open>openDb\<close>
  closes the object that the returned \<^verbatim>\<open>*bun.DB\<close> points to, so the objects live in a
  store (\<open>handles\<close> of the process state) and a pointer is an index into it; \<open>None\<close> is
  \<^verbatim>\<open>nil\<close>.
\<close>

record sql_DB =
  dbClosed :: bool
  dbServer :: pg_server

type_synonym sql_DB_ptr = "nat option"

record bun_DB =
  DB :: sql_DB_ptr

datatype event =
    EvLog Entry
  | EvGoListenAndServe string "string option"
  | EvAwaitInterruption
  | EvInterrupt
  | EvServerShutdown nat "string option"
  | EvCloseLogFile
  | EvExit int
  | EvPanic string
  | EvKilled nat

record proc =
  logLevel :: Level
  logOutput :: "writer list"
  logFile :: "os_File option"
  exitHandlers :: "exit_handler list"
  handles :: "sql_DB list"
  events :: "event list"

text \<open>
  How the run of the process ends: \<open>Killed n\<close> is a process ended by the default action
  of signal \<open>n\<close>, \<open>Blocked\<close> a main control path that waits forever.
\<close>

datatype outcome = Exited int | Panicked string | Killed nat | Blocked

text \<open>
  The signals a waiting process can get, by what they do to a program that has called
  \<^verbatim>\<open>signal.Notify(c, os.Interrupt)\<close> and nothing else: \<open>Interrupt\<close> is \<^verbatim>\<open>os.Interrupt\<close>, the
  one signal relayed to the channel; \<open>Terminating n\<close> is any other signal whose default
  action ends the process (\<^verbatim>\<open>SIGHUP\<close>, \<^verbatim>\<open>SIGTERM\<close>, \<^verbatim>\<open>SIGKILL\<close>, ...), which keeps that
  action; \<open>Ignored n\<close> is a signal that the run time takes without any action
  (\<^verbatim>\<open>SIGWINCH\<close>, \<^verbatim>\<open>SIGCHLD\<close>, ...).
\<close>

datatype os_signal = Interrupt | Terminating nat | Ignored nat

text \<open>
  What \<^verbatim>\<open>sql.Open\<close> can do: return an error, panic inside the driver, or return a handle
  for a server.
\<close>

datatype open_answer = OpenError string | OpenPanic string | Opened pg_server

text \<open>
  What the outside world answers:
  \<^item> \<open>flagParse\<close>: \<open>Some code\<close> when \<^verbatim>\<open>flag.Parse()\<close> rejects the command line and exits;
  \<^item> \<open>getenv\<close>: \<^verbatim>\<open>os.Getenv\<close>, the empty string for an unset variable;
  \<^item> \<open>openLogFile\<close>: the error of \<^verbatim>\<open>os.OpenFile(logPath, ...)\<close>, \<open>None\<close> on success;
  \<^item> \<open>sqlOpen driver dsn\<close>: the error of \<^verbatim>\<open>sql.Open\<close>, the panic of the driver, or the
    server the handle is for;
  \<^item> \<open>listenError\<close>: why \<^verbatim>\<open>ListenAndServe\<close> cannot bind its address, \<open>None\<close> when it binds;
  \<^item> \<open>signals\<close>: the signals delivered to the process while it waits in
    \<^verbatim>\<open>awaitInterruption\<close> and after, in order;
  \<^item> \<open>serverShutdown d\<close>: the error of \<^verbatim>\<open>server.Shutdown(ctx)\<close> for a context with
    timeout \<open>d\<close> (in nanoseconds), \<open>None\<close> on success.
\<close>

record env =
  flagParse :: "int option"
  getenv :: "string \<Rightarrow> string"
  openLogFile :: "string option"
  sqlOpen :: "string \<Rightarrow> string \<Rightarrow> open_answer"
  listenError :: "string option"
  signals :: "os_signal list"
  serverShutdown :: "nat \<Rightarrow> string option"

definition logPath :: string where
  "logPath = ''log.txt''"

text \<open>The state of a fresh process: logrus logs at \<open>InfoLevel\<close> to standard error.\<close>

definition proc0 :: proc where
  "proc0 = \<lparr>logLevel = InfoLevel, logOutput = [Stderr], logFile = None,
            exitHandlers = [], handles = [], events = []\<rparr>"

definition IsLevelEnabled :: "proc \<Rightarrow> Level \<Rightarrow> bool" where
  "IsLevelEnabled p l = (severity l \<le> severity (logLevel p))"

text \<open>One log call: the entry is written when its level is enabled, and dropped otherwise.\<close>

definition logrus_Log :: "Level \<Rightarrow> string \<Rightarrow> (string \<times> string) list \<Rightarrow> proc \<Rightarrow> proc" where
  "logrus_Log l m d p =
     (if IsLevelEnabled p l
      then p\<lparr>events := events p @ [EvLog \<lparr>Lvl = l, Message = m, Data = d\<rparr>]\<rparr>
      else p)"

definition Infoln :: "string \<Rightarrow> proc \<Rightarrow> proc" where
  "Infoln m p = logrus_Log InfoLevel m [] p"

definition Errorln :: "string \<Rightarrow> proc \<Rightarrow> proc" where
  "Errorln m p = logrus_Log ErrorLevel m [] p"

text \<open>\<^verbatim>\<open>logrus.WithError(err)\<close> puts the error under the key \<open>error\<close>.\<close>

definition WithError :: "string \<Rightarrow> (string \<times> string) list" where
  "WithError err = [(''error'', err)]"

text \<open>
  The registered closure:
  \<^verbatim>\<open>func() { if logFile == nil { return }; logFile.Close() }\<close>
\<close>

fun runExitHandler :: "exit_handler \<Rightarrow> proc \<Rightarrow> proc" where
  "runExitHandler CloseLogFile p =
     (case logFile p of
        None \<Rightarrow> p
      | Some f \<Rightarrow> p\<lparr>logFile := Some (f\<lparr>fileClosed := True\<rparr>),
                    events := events p @ [EvCloseLogFile]\<rparr>)"

fun runHandlers :: "exit_handler list \<Rightarrow> proc \<Rightarrow> proc" where
  "runHandlers [] p = p"
| "runHandlers (h # hs) p = runHandlers hs (runExitHandler h p)"

text \<open>\<^verbatim>\<open>logrus.Exit(code)\<close> runs the registered handlers, then \<^verbatim>\<open>os.Exit(code)\<close>.\<close>

definition logrus_Exit :: "int \<Rightarrow> proc \<Rightarrow> outcome \<times> proc" where
  "logrus_Exit code p =
     (let p' = runHandlers (exitHandlers p) p
      in (Exited code, p'\<lparr>events := events p' @ [EvExit code]\<rparr>))"

text \<open>\<^verbatim>\<open>logrus.Fatalf\<close> logs at \<open>FatalLevel\<close> and then calls \<^verbatim>\<open>Exit(1)\<close>.\<close>

definition Fatalf :: "string \<Rightarrow> proc \<Rightarrow> outcome \<times> proc" where
  "Fatalf m p = logrus_Exit 1 (logrus_Log FatalLevel m [] p)"

text \<open>
  \<^verbatim>\<open>setupLogger(verbose)\<close>: the formatter only shapes the text of a line and is not
  modelled. \<open>Inl\<close> is the process ended by \<^verbatim>\<open>Fatalf\<close>.
\<close>

definition setupLogger :: "env \<Rightarrow> bool \<Rightarrow> proc \<Rightarrow> (outcome \<times> proc) + proc" where
  "setupLogger e verbose p =
     (let p1 = (if verbose then p\<lparr>logLevel := DebugLevel\<rparr> else p)
      in case openLogFile e of
           Some err \<Rightarrow>
             Inl (Fatalf (''Failed to open log file '' @ logPath @ '' for output: '' @ err) p1)
         | None \<Rightarrow>
             Inr (p1\<lparr>logFile := Some \<lparr>fileName = logPath, fileClosed = False\<rparr>,
                     logOutput := [Stderr, LogFileWriter],
                     exitHandlers := exitHandlers p1 @ [CloseLogFile]\<rparr>))"

section \<open>Opening the database\<close>

text \<open>
  \<^verbatim>\<open>sql.Open(driver, dsn)\<close> returns \<^verbatim>\<open>(nil, err)\<close> on an error and a pointer to a new,
  open handle otherwise. It never connects: the handle is only for the server. A panic
  of the driver (on a DSN it cannot read) passes through it: \<open>Inl\<close>.
\<close>

definition sql_Open ::
  "env \<Rightarrow> string \<Rightarrow> string \<Rightarrow> proc \<Rightarrow> string + ((sql_DB_ptr \<times> string option) \<times> proc)" where
  "sql_Open e driverName dataSourceName p =
     (case sqlOpen e driverName dataSourceName of
        OpenPanic m \<Rightarrow> Inl m
      | OpenError err \<Rightarrow> Inr ((None, Some err), p)
      | Opened srv \<Rightarrow>
          Inr ((Some (length (handles p)), None),
               p\<lparr>handles := handles p @ [\<lparr>dbClosed = False, dbServer = srv\<rparr>]\<rparr>))"

text \<open>
  \<^verbatim>\<open>(*sql.DB).Close\<close> marks the object closed. Called through a \<^verbatim>\<open>nil\<close> pointer it
  dereferences it, which is a run-time panic: \<open>None\<close>.
\<close>

definition sql_Close :: "sql_DB_ptr \<Rightarrow> proc \<Rightarrow> proc option" where
  "sql_Close ptr p =
     (case ptr of
        None \<Rightarrow> None
      | Some a \<Rightarrow>
          if a < length (handles p)
          then Some (p\<lparr>handles := (handles p)[a := (handles p ! a)\<lparr>dbClosed := True\<rparr>]\<rparr>)
          else None)"

text \<open>\<^verbatim>\<open>bun.NewDB(sqldb, dialect)\<close> wraps the pointer it is given.\<close>

definition bun_NewDB :: "sql_DB_ptr \<Rightarrow> bun_DB" where
  "bun_NewDB sqldb = \<lparr>DB = sqldb\<rparr>"

definition nilDereference :: string where
  "nilDereference = ''runtime error: invalid memory address or nil pointer dereference''"

text \<open>
  \<^verbatim>\<open>
  func openDb(pgDsn string) *bun.DB {
      sqldb, err := sql.Open("pg", pgDsn)
      if err != nil {
          logrus.WithError(err).Errorln("Database open failed.")
      }
      defer sqldb.Close()
      return bun.NewDB(sqldb, pgdialect.New())
  }
  \<close>
  The result of \<^verbatim>\<open>bun.NewDB\<close> is computed first; the deferred \<^verbatim>\<open>sqldb.Close()\<close> runs
  after it and before \<^verbatim>\<open>openDb\<close> returns. \<open>Inl\<close> is the process ended by a panic: that
  of the driver inside \<^verbatim>\<open>sql.Open\<close>, before anything is logged or deferred, or that of
  \<^verbatim>\<open>Close\<close> on a \<^verbatim>\<open>nil\<close> pointer.
\<close>

definition openDb :: "env \<Rightarrow> string \<Rightarrow> proc \<Rightarrow> (outcome \<times> proc) + (bun_DB \<times> proc)" where
  "openDb e pgDsn p =
     (case sql_Open e ''pg'' pgDsn p of
        Inl m \<Rightarrow> Inl (Panicked m, p\<lparr>events := events p @ [EvPanic m]\<rparr>)
      | Inr ((sqldb, err), p1) \<Rightarrow>
          let p2 = (case err of
                      Some m \<Rightarrow> logrus_Log ErrorLevel ''Database open failed.'' (WithError m) p1
                    | None \<Rightarrow> p1);
              db = bun_NewDB sqldb
          in case sql_Close sqldb p2 of
               None \<Rightarrow>
                 Inl (Panicked nilDereference,
                      p2\<lparr>events := events p2 @ [EvPanic nilDereference]\<rparr>)
             | Some p3 \<Rightarrow> Inr (db, p3))"

text \<open>The handle a \<^verbatim>\<open>*bun.DB\<close> points to, if it points to one.\<close>

definition handleOf :: "proc \<Rightarrow> bun_DB \<Rightarrow> sql_DB option" where
  "handleOf p db =
     (case DB db of
        None \<Rightarrow> None
      | Some a \<Rightarrow> if a < length (handles p) then Some (handles p ! a) else None)"

section \<open>HTTP: requests, response writers and handlers\<close>

record Request =
  reqMethod :: string
  reqPath :: string

text \<open>
  What a handler writes to the body: plain text, or a sequence of version records in the
  (unspecified) serialisation of the controller, which keeps their order.
\<close>

datatype chunk = Text string | VersionSeq "Version list"

text \<open>
  An \<^verbatim>\<open>http.ResponseWriter\<close>: \<open>respStatus\<close> is \<open>None\<close> until the header is written. The
  first \<^verbatim>\<open>Write\<close> writes the header with status 200 when none was written; a second
  \<^verbatim>\<open>WriteHeader\<close> changes nothing.
\<close>

record ResponseWriter =
  respHeader :: "(string \<times> string) list"
  respStatus :: "nat option"
  respBody :: "chunk list"

definition newResponseWriter :: ResponseWriter where
  "newResponseWriter = \<lparr>respHeader = [], respStatus = None, respBody = []\<rparr>"

definition WriteHeader :: "nat \<Rightarrow> ResponseWriter \<Rightarrow> ResponseWriter" where
  "WriteHeader code w = (if respStatus w = None then w\<lparr>respStatus := Some code\<rparr> else w)"

definition Write :: "chunk \<Rightarrow> ResponseWriter \<Rightarrow> ResponseWriter" where
  "Write c w = (let w' = WriteHeader 200 w in w'\<lparr>respBody := respBody w' @ [c]\<rparr>)"

definition SetHeader :: "string \<Rightarrow> string \<Rightarrow> ResponseWriter \<Rightarrow> ResponseWriter" where
  "SetHeader k v w =
     (if respStatus w = None
      then w\<lparr>respHeader := (k, v) # filter (\<lambda>kv. fst kv \<noteq> k) (respHeader w)\<rparr>
      else w)"

text \<open>
  A handler serves one request: it writes to the response writer and may log. \<open>None\<close> is
  a handler that panics (the server then aborts that one response).
\<close>

type_synonym Handler = "Request \<Rightarrow> ResponseWriter \<Rightarrow> proc \<Rightarrow> (ResponseWriter \<times> proc) option"

text \<open>
  Modelled from the spec: \<^verbatim>\<open>requestLog\<close> is called by \<^verbatim>\<open>logHandler\<close> and is not in
  \<^verbatim>\<open>main.go\<close>. The spec says that the middleware "records method and path"; these are
  the fields of the entry.
\<close>

definition requestLog :: "Request \<Rightarrow> (string \<times> string) list" where
  "requestLog r = [(''method'', reqMethod r), (''path'', reqPath r)]"

text \<open>
  \<^verbatim>\<open>
  func logHandler(next http.Handler) http.Handler {
      return http.HandlerFunc(func(w http.ResponseWriter, r *http.Request) {
          requestLog(r).Infoln("Handling request.")
          next.ServeHTTP(w, r)
      })
  }
  \<close>
\<close>

definition logHandler :: "Handler \<Rightarrow> Handler" where
  "logHandler next r w p =
     next r w (logrus_Log InfoLevel ''Handling request.'' (requestLog r) p)"

text \<open>
  Modelled from the spec: \<^verbatim>\<open>notFoundHandler\<close> is not in \<^verbatim>\<open>main.go\<close>. The spec calls it
  a fixed "not found" response with a 404-equivalent status.
\<close>

definition notFoundBody :: string where
  "notFoundBody = ''not found''"

definition notFoundHandler :: Handler where
  "notFoundHandler r w p = Some (Write (Text notFoundBody) (WriteHeader 404 w), p)"

text \<open>The handler of the route \<open>/\<close>: \<^verbatim>\<open>fmt.Fprintf(w, "dzialam")\<close>.\<close>

definition rootHandler :: Handler where
  "rootHandler r w p = Some (Write (Text ''dzialam'') w, p)"

section \<open>The version repository and its controller\<close>

text \<open>
  Modelled from the spec: the error of the repository is not declared in \<^verbatim>\<open>main.go\<close>.
  The spec: a "StorageError carrying the underlying cause".
\<close>

datatype StorageError = StorageError string

text \<open>
  The two structs as \<^verbatim>\<open>createHttpHandler\<close> builds them:
  \<^verbatim>\<open>VersionController{Repo: &PgVersionRepo{DB: db}}\<close>.
\<close>

record PgVersionRepo =
  repoDB :: bun_DB

record VersionController =
  Repo :: PgVersionRepo

text \<open>
  Modelled from the spec: the repository's query is not in \<^verbatim>\<open>main.go\<close>. The spec says
  it returns the version records "ordered by recency", "finite, newest first". The store
  lists its records in the chronological order of their insertion, so the newest first
  is that list from its end to its start.
\<close>

definition newestFirst :: "Version list \<Rightarrow> Version list" where
  "newestFirst vs = rev vs"

text \<open>
  A query through a \<^verbatim>\<open>*sql.DB\<close>, as \<^verbatim>\<open>database/sql\<close> answers it: through a \<^verbatim>\<open>nil\<close>
  pointer it panics (\<open>None\<close>); on a closed handle it fails with
  \<^verbatim>\<open>sql: database is closed\<close> without reaching the server; otherwise the server answers,
  with the cause of its outage or with its rows.
\<close>

definition sql_Query :: "sql_DB_ptr \<Rightarrow> proc \<Rightarrow> (string + Version list) option" where
  "sql_Query ptr p =
     (case ptr of
        None \<Rightarrow> None
      | Some a \<Rightarrow>
          if a < length (handles p)
          then Some (if dbClosed (handles p ! a) then Inl ''sql: database is closed''
                     else case outage (dbServer (handles p ! a)) of
                            Some cause \<Rightarrow> Inl cause
                          | None \<Rightarrow> Inr (versions (dbServer (handles p ! a))))
          else None)"

text \<open>
  Modelled from the spec: "fetch latest versions" of \<^verbatim>\<open>PgVersionRepo\<close>, not in
  \<^verbatim>\<open>main.go\<close>. On a query failure it "fails with a StorageError carrying the underlying
  cause"; otherwise it returns the records, newest first.
\<close>

definition fetchLatestVersions :: "PgVersionRepo \<Rightarrow> proc \<Rightarrow> (StorageError + Version list) option" where
  "fetchLatestVersions repo p =
     (case sql_Query (DB (repoDB repo)) p of
        None \<Rightarrow> None
      | Some (Inl cause) \<Rightarrow> Some (Inl (StorageError cause))
      | Some (Inr rows) \<Rightarrow> Some (Inr (newestFirst rows)))"

text \<open>
  Modelled from the spec: \<^verbatim>\<open>VersionController.ServeLatestVersions\<close> is not in
  \<^verbatim>\<open>main.go\<close>. The spec: "calls the Repository; on success, serializes the resulting
  sequence to the response body and sets a success status; on StorageError, writes a
  server-error status and a diagnostic body, and logs the failure. Side effect: one log
  entry per request outcome". The diagnostic body is "generic": one fixed text.
\<close>

definition serverErrorBody :: string where
  "serverErrorBody = ''internal server error''"

definition ServeLatestVersions :: "VersionController \<Rightarrow> Handler" where
  "ServeLatestVersions c r w p =
     (case fetchLatestVersions (Repo c) p of
        None \<Rightarrow> None
      | Some (Inl (StorageError cause)) \<Rightarrow>
          Some (Write (Text serverErrorBody) (WriteHeader 500 w),
                logrus_Log ErrorLevel ''Fetching latest versions failed.'' (WithError cause) p)
      | Some (Inr vs) \<Rightarrow>
          Some (Write (VersionSeq vs) (WriteHeader 200 w),
                logrus_Log InfoLevel ''Served latest versions.'' [] p))"

section \<open>The router (gorilla/mux)\<close>

text \<open>
  The matchers the program registers: \<^verbatim>\<open>HandleFunc(path, f)\<close> matches the whole path,
  \<^verbatim>\<open>PathPrefix(tpl)\<close> a prefix of it, \<^verbatim>\<open>Methods(...)\<close> the request method.
\<close>

datatype matcher =
    pathMatcher string
  | pathPrefixMatcher string
  | methodMatcher "string list"

fun isMethodMatcher :: "matcher \<Rightarrow> bool" where
  "isMethodMatcher (methodMatcher ms) = True"
| "isMethodMatcher (pathMatcher t) = False"
| "isMethodMatcher (pathPrefixMatcher t) = False"

fun matcher_Match :: "matcher \<Rightarrow> Request \<Rightarrow> bool" where
  "matcher_Match (pathMatcher t) r = (reqPath r = t)"
| "matcher_Match (pathPrefixMatcher t) r = (take (length t) (reqPath r) = t)"
| "matcher_Match (methodMatcher ms) r = (reqMethod r \<in> set ms)"

text \<open>
  A route has its matchers and either a handler or a subrouter with routes of its own; a
  route marked \<^verbatim>\<open>BuildOnly()\<close> never matches a request.
\<close>

datatype Route = Route bool "matcher list" target
  and target = ToHandler Handler | ToSubrouter "Route list"

datatype RouteMatch = Found Handler | MethodMismatch | NotFound

text \<open>
  Matching, as mux documents it: the routes are tried in the order of registration and
  the first that matches wins. A route whose matchers all match except for the method
  makes the result a method mismatch unless a later route matches; without any of the
  two the request is not found.
\<close>

fun Route_Match :: "Route \<Rightarrow> Request \<Rightarrow> RouteMatch"
  and Routes_Match :: "Route list \<Rightarrow> Request \<Rightarrow> bool \<Rightarrow> RouteMatch" where
  "Route_Match (Route buildOnly ms t) r =
     (if buildOnly then NotFound
      else if \<not> list_all (\<lambda>m. matcher_Match m r) (filter (\<lambda>m. \<not> isMethodMatcher m) ms)
        then NotFound
      else if \<not> list_all (\<lambda>m. matcher_Match m r) (filter isMethodMatcher ms)
        then MethodMismatch
      else (case t of
              ToHandler h \<Rightarrow> Found h
            | ToSubrouter rs \<Rightarrow> Routes_Match rs r False))"
| "Routes_Match [] r mismatch = (if mismatch then MethodMismatch else NotFound)"
| "Routes_Match (rt # rts) r mismatch =
     (case Route_Match rt r of
        Found h \<Rightarrow> Found h
      | MethodMismatch \<Rightarrow> Routes_Match rts r True
      | NotFound \<Rightarrow> Routes_Match rts r mismatch)"

text \<open>
  Go's \<^verbatim>\<open>path.Clean\<close> on a rooted path: empty elements (doubled slashes) and \<open>.\<close> are
  dropped, \<open>..\<close> drops the element before it, and is itself dropped at the root.
\<close>

fun splitSlash :: "string \<Rightarrow> string list" where
  "splitSlash [] = [[]]"
| "splitSlash (c # cs) =
     (if c = CHR ''/'' then [] # splitSlash cs
      else (case splitSlash cs of [] \<Rightarrow> [[c]] | s # ss \<Rightarrow> (c # s) # ss))"

fun cleanElems :: "string list \<Rightarrow> string list \<Rightarrow> string list" where
  "cleanElems [] kept = rev kept"
| "cleanElems (e # es) kept =
     (if e = [] \<or> e = ''.'' then cleanElems es kept
      else if e = ''..'' then cleanElems es (case kept of [] \<Rightarrow> [] | k # ks \<Rightarrow> ks)
      else cleanElems es (e # kept))"

definition path_Clean :: "string \<Rightarrow> string" where
  "path_Clean p =
     (case cleanElems (splitSlash p) [] of
        [] \<Rightarrow> ''/''
      | e # es \<Rightarrow> concat (map (\<lambda>x. CHR ''/'' # x) (e # es)))"

text \<open>
  mux's \<^verbatim>\<open>cleanPath\<close>: the path is made rooted and cleaned, and a trailing slash that
  \<^verbatim>\<open>path.Clean\<close> removed is put back.
\<close>

definition cleanPath :: "string \<Rightarrow> string" where
  "cleanPath p =
     (case p of
        [] \<Rightarrow> ''/''
      | c # cs \<Rightarrow>
          let p' = (if c = CHR ''/'' then p else CHR ''/'' # p);
              np = path_Clean p'
          in if last p' = CHR ''/'' \<and> np \<noteq> ''/'' then np @ ''/'' else np)"

record Router =
  routes :: "Route list"
  NotFoundHandler :: "Handler option"

text \<open>The handlers mux and \<^verbatim>\<open>net/http\<close> fall back to.\<close>

definition methodNotAllowedHandler :: Handler where
  "methodNotAllowedHandler r w p = Some (WriteHeader 405 w, p)"

definition http_NotFound :: Handler where
  "http_NotFound r w p = Some (Write (Text ''404 page not found'') (WriteHeader 404 w), p)"

text \<open>
  \<^verbatim>\<open>(*mux.Router).ServeHTTP\<close> of a router made by \<^verbatim>\<open>mux.NewRouter()\<close> (\<^verbatim>\<open>SkipClean\<close> is
  off, no \<^verbatim>\<open>MethodNotAllowedHandler\<close>): a path that is not in its cleaned form is
  answered with a redirect (301) to the cleaned path, before any route is tried.
\<close>

definition Router_ServeHTTP :: "Router \<Rightarrow> Handler" where
  "Router_ServeHTTP router r w p =
     (let cp = cleanPath (reqPath r)
      in if cp \<noteq> reqPath r then Some (WriteHeader 301 (SetHeader ''Location'' cp w), p)
         else (case Routes_Match (routes router) r False of
                 Found h \<Rightarrow> h r w p
               | MethodMismatch \<Rightarrow> methodNotAllowedHandler r w p
               | NotFound \<Rightarrow>
                   (case NotFoundHandler router of
                      Some h \<Rightarrow> h r w p
                    | None \<Rightarrow> http_NotFound r w p)))"

text \<open>
  \<^verbatim>\<open>
  func createHttpHandler(db *bun.DB) http.Handler {
      router := mux.NewRouter()
      router.NotFoundHandler = router.NewRoute().BuildOnly().HandlerFunc(notFoundHandler).GetHandler()
      router.HandleFunc("/", func(w http.ResponseWriter, r *http.Request) {
          fmt.Fprintf(w, "dzialam")
      })
      versionRouter := router.PathPrefix("/version").Subrouter()
      versionController := VersionController{Repo: &PgVersionRepo{DB: db}}
      versionRouter.HandleFunc("/latest", versionController.ServeLatestVersions).Methods("GET")
      return logHandler(router)
  }
  \<close>
  \<open>mainRouter db\<close> is the router as these calls leave it: \<^verbatim>\<open>NewRoute()\<close> registers the
  build-only route first; the path template of a subrouter's route is the prefix followed
  by its own template.
\<close>

definition mainRouter :: "bun_DB \<Rightarrow> Router" where
  "mainRouter db =
     (let versionController = \<lparr>Repo = \<lparr>repoDB = db\<rparr>\<rparr>
      in \<lparr>routes =
            [Route True [] (ToHandler notFoundHandler),
             Route False [pathMatcher ''/''] (ToHandler rootHandler),
             Route False [pathPrefixMatcher ''/version'']
               (ToSubrouter
                  [Route False [pathMatcher ''/version/latest'', methodMatcher [''GET'']]
                     (ToHandler (ServeLatestVersions versionController))])],
          NotFoundHandler = Some notFoundHandler\<rparr>)"

definition createHttpHandler :: "bun_DB \<Rightarrow> Handler" where
  "createHttpHandler db = logHandler (Router_ServeHTTP (mainRouter db))"

section \<open>The lifecycle: start, wait, shutdown\<close>

record http_Server =
  Addr :: string
  srvHandler :: Handler

text \<open>
  \<^verbatim>\<open>go server.ListenAndServe()\<close>: the call runs in a goroutine of its own and the error
  it returns (the bind error \<open>listenError\<close>, if any) is dropped with it.
\<close>

definition go_ListenAndServe :: "env \<Rightarrow> http_Server \<Rightarrow> proc \<Rightarrow> proc" where
  "go_ListenAndServe e server p =
     p\<lparr>events := events p @ [EvGoListenAndServe (Addr server) (listenError e)]\<rparr>"

text \<open>
  \<^verbatim>\<open>
  func awaitInterruption() {
      c := make(chan os.Signal, 1)
      signal.Notify(c, os.Interrupt)
      <-c
  }
  \<close>
  \<^verbatim>\<open>signal.Notify\<close> relays only \<^verbatim>\<open>os.Interrupt\<close> to \<open>c\<close>, and the receive returns with the
  first one relayed: \<open>Interrupted rest\<close>, with the signals that arrive after it. Every
  other signal keeps its default action while the receive waits: one that ends the
  process ends it there (\<open>KilledBy n\<close>, and \<^verbatim>\<open>awaitInterruption\<close> does not return), one
  that is ignored changes nothing. \<open>None\<close> is a receive that waits forever, because
  neither an interrupt nor a terminating signal ever arrives.
\<close>

datatype wait_end = Interrupted "os_signal list" | KilledBy nat

fun awaitInterruption :: "os_signal list \<Rightarrow> wait_end option" where
  "awaitInterruption [] = None"
| "awaitInterruption (Interrupt # ss) = Some (Interrupted ss)"
| "awaitInterruption (Terminating n # ss) = Some (KilledBy n)"
| "awaitInterruption (Ignored n # ss) = awaitInterruption ss"

record Context =
  ctxTimeout :: nat

text \<open>\<^verbatim>\<open>time.Second\<close>, a \<^verbatim>\<open>time.Duration\<close>: a count of nanoseconds.\<close>

definition Second :: nat where
  "Second = 1000000000"

definition WithTimeout :: "nat \<Rightarrow> Context" where
  "WithTimeout d = \<lparr>ctxTimeout = d\<rparr>"

text \<open>
  \<^verbatim>\<open>
  func shutdown(ctx context.Context, server *http.Server) {
      err := server.Shutdown(ctx)
      if err != nil {
          logrus.WithError(err).Warningln("Http server shutdown failed.")
      }
      logrus.Exit(0)
  }
  \<close>
\<close>

definition shutdown :: "env \<Rightarrow> Context \<Rightarrow> http_Server \<Rightarrow> proc \<Rightarrow> outcome \<times> proc" where
  "shutdown e ctx server p =
     (let err = serverShutdown e (ctxTimeout ctx);
          p1 = p\<lparr>events := events p @ [EvServerShutdown (ctxTimeout ctx) err]\<rparr>;
          p2 = (case err of
                  Some m \<Rightarrow> logrus_Log WarnLevel ''Http server shutdown failed.'' (WithError m) p1
                | None \<Rightarrow> p1)
      in logrus_Exit 0 p2)"

text \<open>
  \<^verbatim>\<open>main\<close>, statement by statement. \<^verbatim>\<open>flag.Parse()\<close> exits by \<^verbatim>\<open>os.Exit\<close> on a command
  line it rejects; the deferred \<^verbatim>\<open>cancel()\<close> never runs, since \<^verbatim>\<open>shutdown\<close> exits. A
  process that a signal ends during the wait runs no exit handler and no shutdown.
\<close>

definition main :: "env \<Rightarrow> outcome \<times> proc" where
  "main e =
     (case flagParse e of
        Some code \<Rightarrow> (Exited code, proc0\<lparr>events := [EvExit code]\<rparr>)
      | None \<Rightarrow>
     (case setupLogger e (getenv e ''verbose'' = ''true'') proc0 of
        Inl halted \<Rightarrow> halted
      | Inr p1 \<Rightarrow>
          let p2 = Infoln ''Starting backend.'' p1;
              pgDsn = getenv e ''POSTGRES_DSN'';
              p3 = (if pgDsn = []
                    then Errorln ''Environment variable POSTGRES_DSN is not set!'' p2
                    else p2);
              p4 = Infoln ''Opening database.'' p3
          in (case openDb e pgDsn p4 of
                Inl halted \<Rightarrow> halted
              | Inr (db, p5) \<Rightarrow>
                  let p6 = Infoln ''Creating http handler.'' p5;
                      h = createHttpHandler db;
                      server = \<lparr>Addr = ''127.0.0.1:2137'', srvHandler = h\<rparr>;
                      p7 = go_ListenAndServe e server p6;
                      p8 = Infoln ''Starting listening... To shut down use ^C'' p7;
                      p9 = p8\<lparr>events := events p8 @ [EvAwaitInterruption]\<rparr>
                  in (case awaitInterruption (signals e) of
                        None \<Rightarrow> (Blocked, p9)
                      | Some (KilledBy n) \<Rightarrow>
                          (Killed n, p9\<lparr>events := events p9 @ [EvKilled n]\<rparr>)
                      | Some (Interrupted rest) \<Rightarrow>
                          let p10 = p9\<lparr>events := events p9 @ [EvInterrupt]\<rparr>;
                              p11 = Infoln ''Shutting down...'' p10;
                              ctx = WithTimeout (10 * Second)
                          in shutdown e ctx server p11))))"

section \<open>The events of a run\<close>

text \<open>An entry at \<open>InfoLevel\<close> without fields, as \<^verbatim>\<open>logrus.Infoln\<close> writes it.\<close>

definition info :: "string \<Rightarrow> event" where
  "info m = EvLog \<lparr>Lvl = InfoLevel, Message = m, Data = []\<rparr>"

text \<open>The events of \<^verbatim>\<open>main\<close> from the return of \<^verbatim>\<open>setupLogger\<close> to the call of \<^verbatim>\<open>openDb\<close>.\<close>

definition startEvents :: "env \<Rightarrow> event list" where
  "startEvents e =
     [info ''Starting backend.''] @
     (if getenv e ''POSTGRES_DSN'' = []
      then [EvLog \<lparr>Lvl = ErrorLevel, Message = ''Environment variable POSTGRES_DSN is not set!'', Data = []\<rparr>]
      else []) @
     [info ''Opening database.'']"

text \<open>The events of \<^verbatim>\<open>main\<close> up to the signal wait, when \<^verbatim>\<open>openDb\<close> has returned.\<close>

definition waitEvents :: "env \<Rightarrow> event list" where
  "waitEvents e =
     startEvents e @
     [info ''Creating http handler.'',
      EvGoListenAndServe ''127.0.0.1:2137'' (listenError e),
      info ''Starting listening... To shut down use ^C'',
      EvAwaitInterruption]"

text \<open>The events that \<^verbatim>\<open>shutdown\<close> leaves after the call of \<^verbatim>\<open>server.Shutdown\<close>.\<close>

definition shutdownTail :: "string option \<Rightarrow> event list" where
  "shutdownTail err =
     (case err of
        None \<Rightarrow> []
      | Some m \<Rightarrow> [EvLog \<lparr>Lvl = WarnLevel, Message = ''Http server shutdown failed.'',
                           Data = [(''error'', m)]\<rparr>])
     @ [EvCloseLogFile, EvExit 0]"

text \<open>
  The state of the main control path after \<^verbatim>\<open>setupLogger\<close> has returned: entries at
  \<open>InfoLevel\<close> are written, the log file is open, its closing handler is registered, and
  \<open>evs\<close> are the events so far.
\<close>

definition running :: "proc \<Rightarrow> event list \<Rightarrow> bool" where
  "running p evs =
     (IsLevelEnabled p InfoLevel \<and>
      logFile p = Some \<lparr>fileName = logPath, fileClosed = False\<rparr> \<and>
      exitHandlers p = [CloseLogFile] \<and> events p = evs)"

text \<open>The entry that \<^verbatim>\<open>logHandler\<close> writes for a request.\<close>

definition handlingEntry :: "Request \<Rightarrow> event" where
  "handlingEntry r =
     EvLog \<lparr>Lvl = InfoLevel, Message = ''Handling request.'',
            Data = [(''method'', reqMethod r), (''path'', reqPath r)]\<rparr>"

text \<open>The entry that the controller writes for a failed repository call.\<close>

definition failureEntry :: "string \<Rightarrow> event" where
  "failureEntry cause =
     EvLog \<lparr>Lvl = ErrorLevel, Message = ''Fetching latest versions failed.'',
            Data = [(''error'', cause)]\<rparr>"

text \<open>
  The result of a handler that started from \<open>p\<close>, replayed after the events \<open>es\<close>: the
  response is the same, and what the handler logged follows \<open>es\<close>.
\<close>

definition withEarlier ::
  "proc \<Rightarrow> event list \<Rightarrow> (ResponseWriter \<times> proc) option \<Rightarrow> (ResponseWriter \<times> proc) option" where
  "withEarlier p es res =
     map_option
       (\<lambda>(w', p'). (w', p'\<lparr>events := events p @ es @ drop (length (events p)) (events p')\<rparr>))
       res"

section \<open>Example environments, stores and requests\<close>

definition emptyServer :: pg_server where
  "emptyServer = \<lparr>outage = None, versions = []\<rparr>"

text \<open>A run in which the listening address is taken.\<close>

definition envBindFails :: env where
  "envBindFails =
     \<lparr>flagParse = None,
      getenv = (\<lambda>name. if name = ''POSTGRES_DSN'' then ''postgres://localhost/backend'' else []),
      openLogFile = None,
      sqlOpen = (\<lambda>driver dsn. Opened emptyServer),
      listenError = Some ''listen tcp 127.0.0.1:2137: bind: address already in use'',
      signals = [Interrupt],
      serverShutdown = (\<lambda>d. None)\<rparr>"

text \<open>
  A run in which an ignored signal comes before two interrupts, and \<^verbatim>\<open>server.Shutdown\<close>
  runs into its deadline.
\<close>

definition envShutdownFails :: env where
  "envShutdownFails =
     \<lparr>flagParse = None,
      getenv = (\<lambda>name. if name = ''POSTGRES_DSN'' then ''postgres://localhost/backend'' else []),
      openLogFile = None,
      sqlOpen = (\<lambda>driver dsn. Opened emptyServer),
      listenError = None,
      signals = [Ignored 28, Interrupt, Interrupt],
      serverShutdown = (\<lambda>d. Some ''context deadline exceeded'')\<rparr>"

text \<open>
  A run in which \<^verbatim>\<open>SIGTERM\<close> (15) comes during the wait, after an ignored signal and
  before an interrupt.
\<close>

definition envTerminated :: env where
  "envTerminated =
     \<lparr>flagParse = None,
      getenv = (\<lambda>name. if name = ''POSTGRES_DSN'' then ''postgres://localhost/backend'' else []),
      openLogFile = None,
      sqlOpen = (\<lambda>driver dsn. Opened emptyServer),
      listenError = None,
      signals = [Ignored 28, Terminating 15, Interrupt],
      serverShutdown = (\<lambda>d. None)\<rparr>"

text \<open>A run without \<^verbatim>\<open>POSTGRES_DSN\<close>, in which \<^verbatim>\<open>sql.Open\<close> rejects the empty DSN.\<close>

definition envOpenFails :: env where
  "envOpenFails =
     \<lparr>flagParse = None,
      getenv = (\<lambda>name. []),
      openLogFile = None,
      sqlOpen = (\<lambda>driver dsn. if dsn = [] then OpenError ''invalid data source name''
                                else Opened emptyServer),
      listenError = None,
      signals = [Interrupt],
      serverShutdown = (\<lambda>d. None)\<rparr>"

text \<open>
  Three version records, and a store into which they were inserted in the chronological
  order \<open>1.2.0\<close>, \<open>1.1.0\<close>, \<open>1.0.0\<close>.
\<close>

definition v120 :: Version where
  "v120 = \<lparr>versionId = ''1.2.0''\<rparr>"

definition v110 :: Version where
  "v110 = \<lparr>versionId = ''1.1.0''\<rparr>"

definition v100 :: Version where
  "v100 = \<lparr>versionId = ''1.0.0''\<rparr>"

definition threeVersions :: pg_server where
  "threeVersions = \<lparr>outage = None, versions = [v120, v110, v100]\<rparr>"

text \<open>
  Process states with one handle, at address 0: open on the three versions, closed, and
  open on a store that holds nothing.
\<close>

definition procOpen :: proc where
  "procOpen = proc0\<lparr>handles := [\<lparr>dbClosed = False, dbServer = threeVersions\<rparr>]\<rparr>"

definition procClosed :: proc where
  "procClosed = proc0\<lparr>handles := [\<lparr>dbClosed = True, dbServer = threeVersions\<rparr>]\<rparr>"


definition db0 :: bun_DB where
  "db0 = \<lparr>DB = Some 0\<rparr>"

definition getLatest :: Request where
  "getLatest = \<lparr>reqMethod = ''GET'', reqPath = ''/version/latest''\<rparr>"

section \<open>Lemmas on the main control path\<close>

lemma running_setupLogger:
  "openLogFile e = None \<Longrightarrow> \<exists>p1. setupLogger e v proc0 = Inr p1 \<and> running p1 []"
  by (simp add: setupLogger_def proc0_def running_def IsLevelEnabled_def)

lemma running_log:
  "running p evs \<Longrightarrow> severity l \<le> 4 \<Longrightarrow>
   running (logrus_Log l m d p) (evs @ [EvLog \<lparr>Lvl = l, Message = m, Data = d\<rparr>])"
  by (simp add: running_def logrus_Log_def IsLevelEnabled_def)

lemma running_Infoln: "running p evs \<Longrightarrow> running (Infoln m p) (evs @ [info m])"
  by (simp add: Infoln_def info_def running_log)

lemma running_Errorln:
  "running p evs \<Longrightarrow>
   running (Errorln m p) (evs @ [EvLog \<lparr>Lvl = ErrorLevel, Message = m, Data = []\<rparr>])"
  by (simp add: Errorln_def running_log)

lemma running_event:
  "running p evs \<Longrightarrow> running (p\<lparr>events := events p @ es\<rparr>) (evs @ es)"
  by (simp add: running_def IsLevelEnabled_def)

lemma running_openDb:
  "running p evs \<Longrightarrow> sqlOpen e ''pg'' dsn = Opened srv \<Longrightarrow>
   \<exists>db p'. openDb e dsn p = Inr (db, p') \<and> running p' evs"
  by (simp add: openDb_def sql_Open_def sql_Close_def running_def IsLevelEnabled_def)

lemma panic_openDb:
  "running p evs \<Longrightarrow> sqlOpen e ''pg'' dsn = OpenError err \<Longrightarrow>
   \<exists>p'. openDb e dsn p = Inl (Panicked nilDereference, p') \<and>
     events p' = evs @ [EvLog \<lparr>Lvl = ErrorLevel, Message = ''Database open failed.'', Data = [(''error'', err)]\<rparr>,
                        EvPanic nilDereference]"
  by (simp add: openDb_def sql_Open_def sql_Close_def running_def IsLevelEnabled_def
      logrus_Log_def WithError_def)

lemma driver_panic_openDb:
  "running p evs \<Longrightarrow> sqlOpen e ''pg'' dsn = OpenPanic m \<Longrightarrow>
   \<exists>p'. openDb e dsn p = Inl (Panicked m, p') \<and> events p' = evs @ [EvPanic m]"
  by (simp add: openDb_def sql_Open_def running_def)

lemma running_shutdown:
  "running p evs \<Longrightarrow>
   fst (shutdown e ctx server p) = Exited 0 \<and>
   events (snd (shutdown e ctx server p)) =
     evs @ EvServerShutdown (ctxTimeout ctx) (serverShutdown e (ctxTimeout ctx)) #
       shutdownTail (serverShutdown e (ctxTimeout ctx)) \<and>
   logFile (snd (shutdown e ctx server p)) = Some \<lparr>fileName = logPath, fileClosed = True\<rparr>"
  by (simp add: shutdown_def running_def logrus_Exit_def logrus_Log_def IsLevelEnabled_def
      shutdownTail_def WithError_def Let_def split: option.splits)

lemma running_start:
  "running p1 [] \<Longrightarrow>
   running (Infoln ''Opening database.''
             (if getenv e ''POSTGRES_DSN'' = []
              then Errorln ''Environment variable POSTGRES_DSN is not set!'' (Infoln ''Starting backend.'' p1)
              else Infoln ''Starting backend.'' p1)) (startEvents e)"
  using running_Infoln [OF running_Errorln [OF running_Infoln [of p1 "[]" "''Starting backend.''"]]]
        running_Infoln [OF running_Infoln [of p1 "[]" "''Starting backend.''"]]
  by (simp add: startEvents_def)

lemma running_go:
  "running p evs \<Longrightarrow>
   running (go_ListenAndServe e server p) (evs @ [EvGoListenAndServe (Addr server) (listenError e)])"
  by (simp add: go_ListenAndServe_def running_def IsLevelEnabled_def)

lemma main_started:
  assumes "flagParse e = None" and "openLogFile e = None"
    and "sqlOpen e ''pg'' (getenv e ''POSTGRES_DSN'') = Opened srv"
  shows "\<exists>db p9. running p9 (waitEvents e) \<and>
           main e =
             (case awaitInterruption (signals e) of
                None \<Rightarrow> (Blocked, p9)
              | Some (KilledBy n) \<Rightarrow> (Killed n, p9\<lparr>events := events p9 @ [EvKilled n]\<rparr>)
              | Some (Interrupted rest) \<Rightarrow>
                  shutdown e (WithTimeout (10 * Second))
                    \<lparr>Addr = ''127.0.0.1:2137'', srvHandler = createHttpHandler db\<rparr>
                    (Infoln ''Shutting down...'' (p9\<lparr>events := events p9 @ [EvInterrupt]\<rparr>)))"
proof -
  obtain p1 where s: "setupLogger e (getenv e ''verbose'' = ''true'') proc0 = Inr p1"
    and r1: "running p1 []"
    using running_setupLogger [OF assms(2)] by blast
  let ?p4 = "Infoln ''Opening database.''
             (if getenv e ''POSTGRES_DSN'' = []
              then Errorln ''Environment variable POSTGRES_DSN is not set!'' (Infoln ''Starting backend.'' p1)
              else Infoln ''Starting backend.'' p1)"
  have r4: "running ?p4 (startEvents e)"
    by (rule running_start [OF r1])
  obtain db p5 where o: "openDb e (getenv e ''POSTGRES_DSN'') ?p4 = Inr (db, p5)"
    and r5: "running p5 (startEvents e)"
    using running_openDb [OF r4 assms(3)] by blast
  let ?server = "\<lparr>Addr = ''127.0.0.1:2137'', srvHandler = createHttpHandler db\<rparr>"
  let ?p8 = "Infoln ''Starting listening... To shut down use ^C''
               (go_ListenAndServe e ?server (Infoln ''Creating http handler.'' p5))"
  let ?p9 = "?p8\<lparr>events := events ?p8 @ [EvAwaitInterruption]\<rparr>"
  have r9: "running ?p9 (waitEvents e)"
    using running_event [OF running_Infoln [OF running_go [OF running_Infoln [OF r5]]],
        of "''Starting listening... To shut down use ^C''" e ?server "''Creating http handler.''" "[EvAwaitInterruption]"]
    by (simp add: waitEvents_def)
  have "main e =
          (case awaitInterruption (signals e) of
             None \<Rightarrow> (Blocked, ?p9)
           | Some (KilledBy n) \<Rightarrow> (Killed n, ?p9\<lparr>events := events ?p9 @ [EvKilled n]\<rparr>)
           | Some (Interrupted rest) \<Rightarrow>
               shutdown e (WithTimeout (10 * Second)) ?server
                 (Infoln ''Shutting down...'' (?p9\<lparr>events := events ?p9 @ [EvInterrupt]\<rparr>)))"
    using assms(1) s o by (simp add: main_def Let_def split: option.split wait_end.split)
  with r9 show ?thesis by blast
qed

lemma main_flag_exit:
  "flagParse e = Some code \<Longrightarrow> fst (main e) = Exited code \<and> events (snd (main e)) = [EvExit code]"
  by (simp add: main_def)

lemma main_log_file_fails:
  "flagParse e = None \<Longrightarrow> openLogFile e = Some err \<Longrightarrow>
   fst (main e) = Exited 1 \<and>
   events (snd (main e)) =
     [EvLog \<lparr>Lvl = FatalLevel, Message = ''Failed to open log file log.txt for output: '' @ err, Data = []\<rparr>,
      EvExit 1]"
  by (simp add: main_def setupLogger_def Fatalf_def logrus_Exit_def logrus_Log_def
      IsLevelEnabled_def proc0_def logPath_def Let_def)

lemma main_open_fails:
  assumes "flagParse e = None" and "openLogFile e = None"
    and "sqlOpen e ''pg'' (getenv e ''POSTGRES_DSN'') = OpenError err"
  shows "fst (main e) = Panicked nilDereference \<and>
   events (snd (main e)) =
     startEvents e @
     [EvLog \<lparr>Lvl = ErrorLevel, Message = ''Database open failed.'', Data = [(''error'', err)]\<rparr>,
      EvPanic nilDereference]"
proof -
  obtain p1 where s: "setupLogger e (getenv e ''verbose'' = ''true'') proc0 = Inr p1"
    and r1: "running p1 []"
    using running_setupLogger [OF assms(2)] by blast
  let ?p4 = "Infoln ''Opening database.''
             (if getenv e ''POSTGRES_DSN'' = []
              then Errorln ''Environment variable POSTGRES_DSN is not set!'' (Infoln ''Starting backend.'' p1)
              else Infoln ''Starting backend.'' p1)"
  have r4: "running ?p4 (startEvents e)"
    by (rule running_start [OF r1])
  obtain p' where o: "openDb e (getenv e ''POSTGRES_DSN'') ?p4 = Inl (Panicked nilDereference, p')"
    and ev: "events p' = startEvents e @
      [EvLog \<lparr>Lvl = ErrorLevel, Message = ''Database open failed.'', Data = [(''error'', err)]\<rparr>,
       EvPanic nilDereference]"
    using panic_openDb [OF r4 assms(3)] by blast
  have "main e = (Panicked nilDereference, p')"
    using assms(1) s o by (simp add: main_def Let_def)
  with ev show ?thesis by simp
qed

lemma main_open_panics:
  assumes "flagParse e = None" and "openLogFile e = None"
    and "sqlOpen e ''pg'' (getenv e ''POSTGRES_DSN'') = OpenPanic m"
  shows "fst (main e) = Panicked m \<and> events (snd (main e)) = startEvents e @ [EvPanic m]"
proof -
  obtain p1 where s: "setupLogger e (getenv e ''verbose'' = ''true'') proc0 = Inr p1"
    and r1: "running p1 []"
    using running_setupLogger [OF assms(2)] by blast
  let ?p4 = "Infoln ''Opening database.''
             (if getenv e ''POSTGRES_DSN'' = []
              then Errorln ''Environment variable POSTGRES_DSN is not set!'' (Infoln ''Starting backend.'' p1)
              else Infoln ''Starting backend.'' p1)"
  have r4: "running ?p4 (startEvents e)"
    by (rule running_start [OF r1])
  obtain p' where o: "openDb e (getenv e ''POSTGRES_DSN'') ?p4 = Inl (Panicked m, p')"
    and ev: "events p' = startEvents e @ [EvPanic m]"
    using driver_panic_openDb [OF r4 assms(3)] by blast
  have "main e = (Panicked m, p')"
    using assms(1) s o by (simp add: main_def Let_def)
  with ev show ?thesis by simp
qed

lemma main_blocked:
  assumes "flagParse e = None" and "openLogFile e = None"
    and "sqlOpen e ''pg'' (getenv e ''POSTGRES_DSN'') = Opened srv"
    and "awaitInterruption (signals e) = None"
  shows "fst (main e) = Blocked \<and> events (snd (main e)) = waitEvents e"
  using main_started [OF assms(1,2,3)] assms(4) by (auto simp: running_def)

lemma main_killed:
  assumes "flagParse e = None" and "openLogFile e = None"
    and "sqlOpen e ''pg'' (getenv e ''POSTGRES_DSN'') = Opened srv"
    and "awaitInterruption (signals e) = Some (KilledBy n)"
  shows "fst (main e) = Killed n \<and> events (snd (main e)) = waitEvents e @ [EvKilled n]"
  using main_started [OF assms(1,2,3)] assms(4) by (auto simp: running_def)

lemma main_shutdown:
  assumes "flagParse e = None" and "openLogFile e = None"
    and "sqlOpen e ''pg'' (getenv e ''POSTGRES_DSN'') = Opened srv"
    and "awaitInterruption (signals e) = Some (Interrupted rest)"
  shows "fst (main e) = Exited 0 \<and>
   events (snd (main e)) =
     waitEvents e @
     [EvInterrupt, info ''Shutting down...'',
      EvServerShutdown (10 * Second) (serverShutdown e (10 * Second))] @
     shutdownTail (serverShutdown e (10 * Second)) \<and>
   logFile (snd (main e)) = Some \<lparr>fileName = logPath, fileClosed = True\<rparr>"
proof -
  obtain db p9 where r9: "running p9 (waitEvents e)"
    and m: "main e = shutdown e (WithTimeout (10 * Second))
                    \<lparr>Addr = ''127.0.0.1:2137'', srvHandler = createHttpHandler db\<rparr>
                    (Infoln ''Shutting down...'' (p9\<lparr>events := events p9 @ [EvInterrupt]\<rparr>))"
    using main_started [OF assms(1,2,3)] assms(4) by auto
  have "running (Infoln ''Shutting down...'' (p9\<lparr>events := events p9 @ [EvInterrupt]\<rparr>))
          ((waitEvents e @ [EvInterrupt]) @ [info ''Shutting down...''])"
    by (rule running_Infoln [OF running_event [OF r9]])
  from running_shutdown [OF this, of e "WithTimeout (10 * Second)"] m
  show ?thesis by (simp add: WithTimeout_def)
qed

lemma waitEvents_no_shutdown:
  "EvServerShutdown d err \<notin> set (waitEvents e)" "EvInterrupt \<notin> set (waitEvents e)"
  by (simp_all add: waitEvents_def startEvents_def info_def)

lemma startEvents_no_wait:
  "EvServerShutdown d err \<notin> set (startEvents e)" "EvAwaitInterruption \<notin> set (startEvents e)"
  by (simp_all add: startEvents_def info_def)

lemma shutdownTail_no_shutdown:
  "EvServerShutdown d err \<notin> set (shutdownTail x)"
  by (simp add: shutdownTail_def split: option.splits)

text \<open>
  The three ways the wait can go: only ignored signals come before the first interrupt,
  or before the first terminating signal, or there are only ignored signals.
\<close>

lemma awaitInterruption_Interrupted:
  "(awaitInterruption sigs = Some (Interrupted rest)) =
     (\<exists>ns. sigs = map Ignored ns @ Interrupt # rest)"
proof (induction sigs rule: awaitInterruption.induct)
  case 1
  then show ?case by simp
next
  case (2 ss)
  show ?case by (auto simp: Cons_eq_append_conv map_eq_Cons_conv)
next
  case (3 n ss)
  show ?case by (auto simp: Cons_eq_append_conv map_eq_Cons_conv)
next
  case (4 n ss)
  have "(\<exists>ns. Ignored n # ss = map Ignored ns @ Interrupt # rest) =
        (\<exists>ns. ss = map Ignored ns @ Interrupt # rest)"
  proof
    assume "\<exists>ns. Ignored n # ss = map Ignored ns @ Interrupt # rest"
    then obtain ns where ns: "Ignored n # ss = map Ignored ns @ Interrupt # rest" by blast
    then obtain ms where "ns = n # ms" by (cases ns) auto
    with ns have "ss = map Ignored ms @ Interrupt # rest" by simp
    then show "\<exists>ns. ss = map Ignored ns @ Interrupt # rest" by blast
  next
    assume "\<exists>ns. ss = map Ignored ns @ Interrupt # rest"
    then obtain ms where "ss = map Ignored ms @ Interrupt # rest" by blast
    then have "Ignored n # ss = map Ignored (n # ms) @ Interrupt # rest" by simp
    then show "\<exists>ns. Ignored n # ss = map Ignored ns @ Interrupt # rest" by blast
  qed
  with 4 show ?case by simp
qed

lemma awaitInterruption_KilledBy:
  "(awaitInterruption sigs = Some (KilledBy k)) =
     (\<exists>ns rest. sigs = map Ignored ns @ Terminating k # rest)"
proof (induction sigs rule: awaitInterruption.induct)
  case 1
  then show ?case by simp
next
  case (2 ss)
  show ?case by (auto simp: Cons_eq_append_conv map_eq_Cons_conv)
next
  case (3 n ss)
  show ?case by (auto simp: Cons_eq_append_conv map_eq_Cons_conv)
next
  case (4 n ss)
  have "(\<exists>ns rest. Ignored n # ss = map Ignored ns @ Terminating k # rest) =
        (\<exists>ns rest. ss = map Ignored ns @ Terminating k # rest)"
  proof
    assume "\<exists>ns rest. Ignored n # ss = map Ignored ns @ Terminating k # rest"
    then obtain ns rest where ns: "Ignored n # ss = map Ignored ns @ Terminating k # rest" by blast
    then obtain ms where "ns = n # ms" by (cases ns) auto
    with ns have "ss = map Ignored ms @ Terminating k # rest" by simp
    then show "\<exists>ns rest. ss = map Ignored ns @ Terminating k # rest" by blast
  next
    assume "\<exists>ns rest. ss = map Ignored ns @ Terminating k # rest"
    then obtain ms rest where "ss = map Ignored ms @ Terminating k # rest" by blast
    then have "Ignored n # ss = map Ignored (n # ms) @ Terminating k # rest" by simp
    then show "\<exists>ns rest. Ignored n # ss = map Ignored ns @ Terminating k # rest" by blast
  qed
  with 4 show ?case by simp
qed

lemma awaitInterruption_None:
  "(awaitInterruption sigs = None) = (\<exists>ns. sigs = map Ignored ns)"
proof (induction sigs rule: awaitInterruption.induct)
  case 1
  then show ?case by simp
next
  case (2 ss)
  show ?case by (auto simp: map_eq_Cons_conv)
next
  case (3 n ss)
  show ?case by (auto simp: map_eq_Cons_conv)
next
  case (4 n ss)
  have "(\<exists>ns. Ignored n # ss = map Ignored ns) = (\<exists>ns. ss = map Ignored ns)"
  proof
    assume "\<exists>ns. Ignored n # ss = map Ignored ns"
    then obtain ns where ns: "Ignored n # ss = map Ignored ns" by (rule exE)
    then obtain ms where "ns = n # ms" by (cases ns) auto
    with ns have "ss = map Ignored ms" by simp
    then show "\<exists>ns. ss = map Ignored ns" by (rule exI)
  next
    assume "\<exists>ns. ss = map Ignored ns"
    then obtain ms where "ss = map Ignored ms" by (rule exE)
    then have "Ignored n # ss = map Ignored (n # ms)" by simp
    then show "\<exists>ns. Ignored n # ss = map Ignored ns" by (rule exI)
  qed
  with 4 show ?case by simp
qed

lemma awaitInterruption_needs_interrupt:
  "awaitInterruption sigs = Some (Interrupted rest) \<Longrightarrow> Interrupt \<in> set sigs"
  by (auto simp: awaitInterruption_Interrupted)

text \<open>Every run of main is one of seven.\<close>

lemma main_runs:
  obtains code where "flagParse e = Some code"
  | err where "flagParse e = None" "openLogFile e = Some err"
  | err where "flagParse e = None" "openLogFile e = None"
      "sqlOpen e ''pg'' (getenv e ''POSTGRES_DSN'') = OpenError err"
  | m where "flagParse e = None" "openLogFile e = None"
      "sqlOpen e ''pg'' (getenv e ''POSTGRES_DSN'') = OpenPanic m"
  | srv where "flagParse e = None" "openLogFile e = None"
      "sqlOpen e ''pg'' (getenv e ''POSTGRES_DSN'') = Opened srv"
      "awaitInterruption (signals e) = None"
  | srv n where "flagParse e = None" "openLogFile e = None"
      "sqlOpen e ''pg'' (getenv e ''POSTGRES_DSN'') = Opened srv"
      "awaitInterruption (signals e) = Some (KilledBy n)"
  | srv rest where "flagParse e = None" "openLogFile e = None"
      "sqlOpen e ''pg'' (getenv e ''POSTGRES_DSN'') = Opened srv"
      "awaitInterruption (signals e) = Some (Interrupted rest)"
proof (cases "flagParse e")
  case (Some code)
  then show ?thesis using that(1) by blast
next
  case None
  note f = this
  show ?thesis
  proof (cases "openLogFile e")
    case (Some err)
    with f show ?thesis using that(2) by blast
  next
    case None
    note l = this
    show ?thesis
    proof (cases "sqlOpen e ''pg'' (getenv e ''POSTGRES_DSN'')")
      case (OpenError err)
      with f l show ?thesis using that(3) by blast
    next
      case (OpenPanic m)
      with f l show ?thesis using that(4) by blast
    next
      case (Opened srv)
      note o = this
      show ?thesis
      proof (cases "awaitInterruption (signals e)")
        case None
        with f l o show ?thesis using that(5) by blast
      next
        case (Some w)
        with f l o show ?thesis using that(6,7) by (cases w) auto
      qed
    qed
  qed
qed

lemma shutdown_only_after_interrupt:
  assumes "EvServerShutdown d err \<in> set (events (snd (main e)))"
  obtains srv rest where "flagParse e = None" "openLogFile e = None"
      "sqlOpen e ''pg'' (getenv e ''POSTGRES_DSN'') = Opened srv"
      "awaitInterruption (signals e) = Some (Interrupted rest)"
proof (cases e rule: main_runs)
  case (1 code)
  with assms main_flag_exit [of e code] show ?thesis by simp
next
  case (2 x)
  with assms main_log_file_fails [of e x] show ?thesis by simp
next
  case (3 x)
  with assms main_open_fails [of e x] startEvents_no_wait(1) [of d err e] show ?thesis by simp
next
  case (4 m)
  with assms main_open_panics [of e m] startEvents_no_wait(1) [of d err e] show ?thesis by simp
next
  case (5 srv)
  with assms main_blocked [of e srv] waitEvents_no_shutdown(1) [of d err e] show ?thesis by simp
next
  case (6 srv n)
  with assms main_killed [of e srv n] waitEvents_no_shutdown(1) [of d err e] show ?thesis by simp
next
  case (7 srv rest)
  then show ?thesis using that by blast
qed

lemma envShutdownFails_run:
  "flagParse envShutdownFails = None" "openLogFile envShutdownFails = None"
  "sqlOpen envShutdownFails ''pg'' (getenv envShutdownFails ''POSTGRES_DSN'') = Opened emptyServer"
  "awaitInterruption (signals envShutdownFails) = Some (Interrupted [Interrupt])"
  "serverShutdown envShutdownFails d = Some ''context deadline exceeded''"
  by (simp_all add: envShutdownFails_def)

lemma envBindFails_run:
  "flagParse envBindFails = None" "openLogFile envBindFails = None"
  "sqlOpen envBindFails ''pg'' (getenv envBindFails ''POSTGRES_DSN'') = Opened emptyServer"
  "awaitInterruption (signals envBindFails) = Some (Interrupted [])"
  by (simp_all add: envBindFails_def)

lemma envTerminated_run:
  "flagParse envTerminated = None" "openLogFile envTerminated = None"
  "sqlOpen envTerminated ''pg'' (getenv envTerminated ''POSTGRES_DSN'') = Opened emptyServer"
  "awaitInterruption (signals envTerminated) = Some (KilledBy 15)"
  by (simp_all add: envTerminated_def)

lemma main_outcome_cases:
  "fst (main e) =
     (case flagParse e of
        Some code \<Rightarrow> Exited code
      | None \<Rightarrow>
          (case openLogFile e of
             Some err \<Rightarrow> Exited 1
           | None \<Rightarrow>
               (case sqlOpen e ''pg'' (getenv e ''POSTGRES_DSN'') of
                  OpenError err \<Rightarrow> Panicked nilDereference
                | OpenPanic m \<Rightarrow> Panicked m
                | Opened srv \<Rightarrow>
                    (case awaitInterruption (signals e) of
                       None \<Rightarrow> Blocked
                     | Some (KilledBy n) \<Rightarrow> Killed n
                     | Some (Interrupted rest) \<Rightarrow> Exited 0))))"
proof (cases e rule: main_runs)
  case (1 code)
  then show ?thesis using main_flag_exit [of e code] by simp
next
  case (2 err)
  then show ?thesis using main_log_file_fails [of e err] by simp
next
  case (3 err)
  then show ?thesis using main_open_fails [of e err] by simp
next
  case (4 m)
  then show ?thesis using main_open_panics [of e m] by simp
next
  case (5 srv)
  then show ?thesis using main_blocked [of e srv] by simp
next
  case (6 srv n)
  then show ?thesis using main_killed [of e srv n] by simp
next
  case (7 srv rest)
  then show ?thesis using main_shutdown [of e srv rest] by simp
qed

lemma main_reaches_wait:
  "EvAwaitInterruption \<in> set (events (snd (main e))) \<longleftrightarrow>
     flagParse e = None \<and> openLogFile e = None \<and>
     (\<exists>srv. sqlOpen e ''pg'' (getenv e ''POSTGRES_DSN'') = Opened srv)"
proof (cases e rule: main_runs)
  case (1 code)
  then show ?thesis using main_flag_exit [of e code] by simp
next
  case (2 err)
  then show ?thesis using main_log_file_fails [of e err] by simp
next
  case (3 err)
  then show ?thesis using main_open_fails [of e err] startEvents_no_wait(2) [of e] by simp
next
  case (4 m)
  then show ?thesis using main_open_panics [of e m] startEvents_no_wait(2) [of e] by simp
next
  case (5 srv)
  then show ?thesis using main_blocked [of e srv] by (simp add: waitEvents_def)
next
  case (6 srv n)
  then show ?thesis using main_killed [of e srv n] by (simp add: waitEvents_def)
next
  case (7 srv rest)
  then show ?thesis using main_shutdown [of e srv rest] by (simp add: waitEvents_def)
qed

section \<open>Lemmas on the handlers\<close>

lemma cleanPath_root: "cleanPath ''/'' = ''/''"
  by (simp add: cleanPath_def path_Clean_def)

lemma cleanPath_latest: "cleanPath ''/version/latest'' = ''/version/latest''"
  by (simp add: cleanPath_def path_Clean_def)

lemma Routes_Match_mainRouter:
  "Routes_Match (routes (mainRouter db)) r False =
     (if reqPath r = ''/'' then Found rootHandler
      else if reqPath r = ''/version/latest''
        then (if reqMethod r = ''GET''
              then Found (ServeLatestVersions \<lparr>Repo = \<lparr>repoDB = db\<rparr>\<rparr>)
              else MethodMismatch)
      else NotFound)"
  by (simp add: mainRouter_def)

lemma logHandler_enabled:
  "IsLevelEnabled p InfoLevel \<Longrightarrow>
   logHandler next r w p = next r w (p\<lparr>events := events p @ [handlingEntry r]\<rparr>)"
  by (simp add: logHandler_def logrus_Log_def requestLog_def handlingEntry_def)

lemma Router_ServeHTTP_mainRouter:
  "Router_ServeHTTP (mainRouter db) r w p =
     (if cleanPath (reqPath r) \<noteq> reqPath r
      then Some (WriteHeader 301 (SetHeader ''Location'' (cleanPath (reqPath r)) w), p)
      else if reqPath r = ''/'' then rootHandler r w p
      else if reqPath r = ''/version/latest''
        then (if reqMethod r = ''GET''
              then ServeLatestVersions \<lparr>Repo = \<lparr>repoDB = db\<rparr>\<rparr> r w p
              else methodNotAllowedHandler r w p)
      else notFoundHandler r w p)"
  by (simp add: Router_ServeHTTP_def Routes_Match_mainRouter Let_def)
     (simp add: mainRouter_def)

lemma logrus_Log_earlier:
  "logrus_Log l m d (p\<lparr>events := events p @ es\<rparr>) =
     (logrus_Log l m d p)\<lparr>events := events p @ es @ drop (length (events p)) (events (logrus_Log l m d p))\<rparr>"
  by (simp add: logrus_Log_def IsLevelEnabled_def)

lemma sql_Query_events [simp]: "sql_Query ptr (p\<lparr>events := es\<rparr>) = sql_Query ptr p"
  by (simp add: sql_Query_def split: option.splits)

lemma fetchLatestVersions_events [simp]:
  "fetchLatestVersions repo (p\<lparr>events := es\<rparr>) = fetchLatestVersions repo p"
  by (simp add: fetchLatestVersions_def)

lemma ServeLatestVersions_earlier:
  "ServeLatestVersions c r w (p\<lparr>events := events p @ es\<rparr>) =
     withEarlier p es (ServeLatestVersions c r w p)"
  by (simp add: ServeLatestVersions_def withEarlier_def logrus_Log_earlier
      split: option.splits sum.splits StorageError.splits)

lemma Router_ServeHTTP_earlier:
  "Router_ServeHTTP (mainRouter db) r w (p\<lparr>events := events p @ es\<rparr>) =
     withEarlier p es (Router_ServeHTTP (mainRouter db) r w p)"
  by (simp add: Router_ServeHTTP_mainRouter ServeLatestVersions_earlier)
     (simp add: withEarlier_def rootHandler_def notFoundHandler_def methodNotAllowedHandler_def)

lemma createHttpHandler_enabled:
  "IsLevelEnabled p InfoLevel \<Longrightarrow>
   createHttpHandler db r w p =
     Router_ServeHTTP (mainRouter db) r w (p\<lparr>events := events p @ [handlingEntry r]\<rparr>)"
  by (simp add: createHttpHandler_def logHandler_enabled)

lemma fst_withEarlier: "map_option fst (withEarlier p es res) = map_option fst res"
  by (cases res) (auto simp: withEarlier_def)

lemma createHttpHandler_response:
  "map_option fst (createHttpHandler db r w p) = map_option fst (Router_ServeHTTP (mainRouter db) r w p)"
proof (cases "IsLevelEnabled p InfoLevel")
  case True
  then show ?thesis
    by (simp add: createHttpHandler_enabled Router_ServeHTTP_earlier fst_withEarlier)
next
  case False
  then show ?thesis
    by (simp add: createHttpHandler_def logHandler_def logrus_Log_def)
qed

lemma createHttpHandler_later:
  "map_option fst (createHttpHandler db r w (p\<lparr>events := events p @ es\<rparr>)) =
   map_option fst (createHttpHandler db r w p)"
  by (simp add: createHttpHandler_response Router_ServeHTTP_earlier fst_withEarlier)

lemma IsLevelEnabled_events [simp]:
  "IsLevelEnabled (p\<lparr>events := es\<rparr>) l = IsLevelEnabled p l"
  by (simp add: IsLevelEnabled_def)

lemma setupLogger_enables_info:
  "setupLogger e v proc0 = Inr p1 \<Longrightarrow> IsLevelEnabled p1 InfoLevel"
  by (auto simp: setupLogger_def proc0_def IsLevelEnabled_def Let_def split: option.splits if_splits)

section \<open>The claims\<close>

text \<open>
  Claim C1, evaluated where the bind fails. The address is in use, and yet the run goes
  on: the error of \<^verbatim>\<open>ListenAndServe\<close> is dropped in its goroutine, no entry of the log
  names it, \<^verbatim>\<open>main\<close> announces that it listens, reaches the signal wait, and after the
  interrupt the process exits with status 0. In every environment \<open>e\<close>, a bind error
  changes neither how the run ends nor whether it reaches the signal wait.
\<close>

theorem bind_failure_is_dropped:
  "listenError envBindFails = Some ''listen tcp 127.0.0.1:2137: bind: address already in use'' \<and>
   fst (main envBindFails) = Exited 0 \<and>
   events (snd (main envBindFails)) =
     [info ''Starting backend.'',
      info ''Opening database.'',
      info ''Creating http handler.'',
      EvGoListenAndServe ''127.0.0.1:2137''
        (Some ''listen tcp 127.0.0.1:2137: bind: address already in use''),
      info ''Starting listening... To shut down use ^C'',
      EvAwaitInterruption,
      EvInterrupt,
      info ''Shutting down...'',
      EvServerShutdown 10000000000 None,
      EvCloseLogFile,
      EvExit 0] \<and>
   fst (main (e\<lparr>listenError := Some err\<rparr>)) = fst (main (e\<lparr>listenError := None\<rparr>)) \<and>
   (EvAwaitInterruption \<in> set (events (snd (main (e\<lparr>listenError := Some err\<rparr>)))) \<longleftrightarrow>
    EvAwaitInterruption \<in> set (events (snd (main (e\<lparr>listenError := None\<rparr>)))))"
proof -
  have "fst (main (e\<lparr>listenError := Some err\<rparr>)) = fst (main (e\<lparr>listenError := None\<rparr>))"
    by (simp add: main_outcome_cases split: option.splits open_answer.splits wait_end.splits)
  moreover have "EvAwaitInterruption \<in> set (events (snd (main (e\<lparr>listenError := Some err\<rparr>)))) \<longleftrightarrow>
    EvAwaitInterruption \<in> set (events (snd (main (e\<lparr>listenError := None\<rparr>))))"
    by (simp add: main_reaches_wait)
  ultimately show ?thesis
    using main_shutdown [OF envBindFails_run]
    by (simp add: waitEvents_def startEvents_def shutdownTail_def Second_def envBindFails_def)
qed

text \<open>
  Claim C2, as amended. Whenever \<^verbatim>\<open>sql.Open\<close> succeeds, \<^verbatim>\<open>openDb\<close> returns a
  \<^verbatim>\<open>*bun.DB\<close> that points to the handle it has just opened, and that handle is closed
  when \<^verbatim>\<open>openDb\<close> returns: a query through it fails with \<^verbatim>\<open>sql: database is closed\<close>.
\<close>

theorem openDb_returns_closed_handle:
  assumes "sqlOpen e ''pg'' pgDsn = Opened srv"
  shows "\<exists>db p'. openDb e pgDsn p = Inr (db, p') \<and>
           DB db = Some (length (handles p)) \<and>
           handles p' = handles p @ [\<lparr>dbClosed = True, dbServer = srv\<rparr>] \<and>
           handleOf p' db = Some \<lparr>dbClosed = True, dbServer = srv\<rparr> \<and>
           sql_Query (DB db) p' = Some (Inl ''sql: database is closed'') \<and>
           events p' = events p"
  using assms
  by (simp add: openDb_def sql_Open_def sql_Close_def bun_NewDB_def handleOf_def sql_Query_def)

theorem openDb_returns_closed_handle_witness:
  "sqlOpen envBindFails ''pg'' ''postgres://localhost/backend'' = Opened emptyServer \<and>
   (\<exists>db p'. openDb envBindFails ''postgres://localhost/backend'' proc0 = Inr (db, p') \<and>
      DB db = Some 0 \<and>
      handles p' = [\<lparr>dbClosed = True, dbServer = emptyServer\<rparr>] \<and>
      handleOf p' db = Some \<lparr>dbClosed = True, dbServer = emptyServer\<rparr> \<and>
      sql_Query (DB db) p' = Some (Inl ''sql: database is closed'') \<and>
      events p' = [])"
proof -
  have h: "sqlOpen envBindFails ''pg'' ''postgres://localhost/backend'' = Opened emptyServer"
    by (simp add: envBindFails_def)
  from openDb_returns_closed_handle [OF h, of proc0] h show ?thesis
    by (simp add: proc0_def)
qed

text \<open>
  The claim C2 as it is stated, for every DSN, fails where \<^verbatim>\<open>sql.Open\<close> returns an error:
  there is no handle to close, the deferred \<^verbatim>\<open>sqldb.Close()\<close> runs on a \<^verbatim>\<open>nil\<close> pointer,
  and \<^verbatim>\<open>openDb\<close> panics instead of returning a \<^verbatim>\<open>*bun.DB\<close>.
\<close>

theorem openDb_panics_when_open_fails:
  "getenv envOpenFails ''POSTGRES_DSN'' = [] \<and>
   openDb envOpenFails [] proc0 =
     Inl (Panicked nilDereference,
          proc0\<lparr>events :=
            [EvLog \<lparr>Lvl = ErrorLevel, Message = ''Database open failed.'',
                    Data = [(''error'', ''invalid data source name'')]\<rparr>,
             EvPanic nilDereference]\<rparr>) \<and>
   fst (main envOpenFails) = Panicked nilDereference"
proof -
  have "fst (main envOpenFails) = Panicked nilDereference"
    using main_open_fails [of envOpenFails "''invalid data source name''"]
    by (simp add: envOpenFails_def)
  then show ?thesis
    by (simp add: openDb_def sql_Open_def sql_Close_def envOpenFails_def proc0_def logrus_Log_def
        IsLevelEnabled_def WithError_def)
qed

text \<open>
  Claim C3. Whenever the main control path calls \<^verbatim>\<open>server.Shutdown\<close>, the context it
  passes has the fixed timeout of 10 seconds (\<open>10 * Second\<close> nanoseconds), created right
  before the call. An error that \<^verbatim>\<open>server.Shutdown\<close> returns is logged as one entry at
  \<open>WarnLevel\<close> and stops nothing: the exit handler then closes the log file, and the
  process exits with status 0; nothing else happens after the call (\<open>shutdownTail\<close>).
\<close>

theorem shutdown_deadline_warning_and_exit:
  assumes "EvServerShutdown d err \<in> set (events (snd (main e)))"
  shows "d = 10 * Second \<and> Second = 1000000000 \<and> err = serverShutdown e d \<and>
         fst (main e) = Exited 0 \<and>
         (\<exists>pre. events (snd (main e)) = pre @ EvServerShutdown d err # shutdownTail err) \<and>
         logFile (snd (main e)) = Some \<lparr>fileName = logPath, fileClosed = True\<rparr>"
proof -
  from assms obtain srv rest where run: "flagParse e = None" "openLogFile e = None"
      "sqlOpen e ''pg'' (getenv e ''POSTGRES_DSN'') = Opened srv"
      "awaitInterruption (signals e) = Some (Interrupted rest)"
    by (rule shutdown_only_after_interrupt)
  note m = main_shutdown [OF run]
  let ?x = "serverShutdown e (10 * Second)"
  from assms m have "EvServerShutdown d err \<in>
      set (waitEvents e @ [EvInterrupt, info ''Shutting down...'', EvServerShutdown (10 * Second) ?x]
           @ shutdownTail ?x)"
    by simp
  then have de: "d = 10 * Second \<and> err = ?x"
    using waitEvents_no_shutdown(1) [of d err e] shutdownTail_no_shutdown [of d err ?x]
    by (auto simp: info_def)
  then have "events (snd (main e)) =
      (waitEvents e @ [EvInterrupt, info ''Shutting down...'']) @ EvServerShutdown d err # shutdownTail err"
    using m by simp
  then have "\<exists>pre. events (snd (main e)) = pre @ EvServerShutdown d err # shutdownTail err"
    by blast
  with de m show ?thesis by (simp add: Second_def)
qed

theorem shutdown_deadline_warning_and_exit_witness:
  "EvServerShutdown (10 * Second) (Some ''context deadline exceeded'')
     \<in> set (events (snd (main envShutdownFails))) \<and>
   fst (main envShutdownFails) = Exited 0 \<and>
   (\<exists>pre. events (snd (main envShutdownFails)) =
      pre @ [EvServerShutdown 10000000000 (Some ''context deadline exceeded''),
             EvLog \<lparr>Lvl = WarnLevel, Message = ''Http server shutdown failed.'',
                    Data = [(''error'', ''context deadline exceeded'')]\<rparr>,
             EvCloseLogFile, EvExit 0]) \<and>
   logFile (snd (main envShutdownFails)) = Some \<lparr>fileName = ''log.txt'', fileClosed = True\<rparr>"
proof -
  have h: "EvServerShutdown (10 * Second) (Some ''context deadline exceeded'')
             \<in> set (events (snd (main envShutdownFails)))"
    using main_shutdown [OF envShutdownFails_run(1-4)] by (simp add: envShutdownFails_run(5))
  from shutdown_deadline_warning_and_exit [OF h] h show ?thesis
    by (simp add: shutdownTail_def logPath_def Second_def envShutdownFails_run(5))
qed

text \<open>
  Claim C6. \<^verbatim>\<open>awaitInterruption\<close> returns exactly when an interrupt is delivered before
  any signal that ends the process, and it consumes that one interrupt only: the signals
  before it are ignored ones, those after it are left. Nothing else makes it return: a
  terminating signal that comes first ends the process inside the wait, and with ignored
  signals only the wait goes on forever. In \<^verbatim>\<open>main\<close>, a call of \<^verbatim>\<open>server.Shutdown\<close>
  implies that the interrupt was delivered, and the wait and the receipt of the interrupt
  come before it in the run, with no shutdown and no interrupt before the wait; a run
  that reaches the wait and is not interrupted there either stays blocked or is killed,
  and never starts the shutdown.
\<close>

theorem wait_ends_only_by_interrupt:
  "(awaitInterruption sigs = Some (Interrupted rest)
      \<longleftrightarrow> (\<exists>ns. sigs = map Ignored ns @ Interrupt # rest)) \<and>
   (awaitInterruption sigs = Some (KilledBy k)
      \<longleftrightarrow> (\<exists>ns rest'. sigs = map Ignored ns @ Terminating k # rest')) \<and>
   (awaitInterruption sigs = None \<longleftrightarrow> (\<exists>ns. sigs = map Ignored ns)) \<and>
   (EvServerShutdown d err \<in> set (events (snd (main e))) \<longrightarrow>
      (\<exists>ns rest. signals e = map Ignored ns @ Interrupt # rest) \<and>
      (\<exists>pre post. events (snd (main e)) = pre @ EvAwaitInterruption # EvInterrupt # post \<and>
         EvInterrupt \<notin> set pre \<and> (\<forall>d' err'. EvServerShutdown d' err' \<notin> set pre))) \<and>
   (EvAwaitInterruption \<in> set (events (snd (main e))) \<and> awaitInterruption (signals e) = None \<longrightarrow>
      fst (main e) = Blocked \<and> EvInterrupt \<notin> set (events (snd (main e))) \<and>
      (\<forall>d' err'. EvServerShutdown d' err' \<notin> set (events (snd (main e))))) \<and>
   (EvAwaitInterruption \<in> set (events (snd (main e))) \<and>
    awaitInterruption (signals e) = Some (KilledBy n) \<longrightarrow>
      fst (main e) = Killed n \<and> EvInterrupt \<notin> set (events (snd (main e))) \<and>
      (\<forall>d' err'. EvServerShutdown d' err' \<notin> set (events (snd (main e)))))"
proof (intro conjI impI)
  show "awaitInterruption sigs = Some (Interrupted rest)
      \<longleftrightarrow> (\<exists>ns. sigs = map Ignored ns @ Interrupt # rest)"
    by (rule awaitInterruption_Interrupted)
  show "awaitInterruption sigs = Some (KilledBy k)
      \<longleftrightarrow> (\<exists>ns rest'. sigs = map Ignored ns @ Terminating k # rest')"
    by (rule awaitInterruption_KilledBy)
  show "awaitInterruption sigs = None \<longleftrightarrow> (\<exists>ns. sigs = map Ignored ns)"
    by (rule awaitInterruption_None)
next
  assume a: "EvServerShutdown d err \<in> set (events (snd (main e)))"
  then obtain srv rest where run: "flagParse e = None" "openLogFile e = None"
      "sqlOpen e ''pg'' (getenv e ''POSTGRES_DSN'') = Opened srv"
      "awaitInterruption (signals e) = Some (Interrupted rest)"
    by (rule shutdown_only_after_interrupt)
  from run(4) show "\<exists>ns rest. signals e = map Ignored ns @ Interrupt # rest"
    by (auto simp: awaitInterruption_Interrupted)
  let ?pre = "startEvents e @ [info ''Creating http handler.'',
      EvGoListenAndServe ''127.0.0.1:2137'' (listenError e),
      info ''Starting listening... To shut down use ^C'']"
  let ?post = "[info ''Shutting down...'',
      EvServerShutdown (10 * Second) (serverShutdown e (10 * Second))] @
     shutdownTail (serverShutdown e (10 * Second))"
  have "events (snd (main e)) = ?pre @ EvAwaitInterruption # EvInterrupt # ?post"
    using main_shutdown [OF run] by (simp add: waitEvents_def)
  moreover have "EvInterrupt \<notin> set ?pre \<and> (\<forall>d' err'. EvServerShutdown d' err' \<notin> set ?pre)"
    by (simp add: startEvents_def info_def)
  ultimately show "\<exists>pre post. events (snd (main e)) = pre @ EvAwaitInterruption # EvInterrupt # post \<and>
         EvInterrupt \<notin> set pre \<and> (\<forall>d' err'. EvServerShutdown d' err' \<notin> set pre)"
    by blast
next
  assume a: "EvAwaitInterruption \<in> set (events (snd (main e))) \<and> awaitInterruption (signals e) = None"
  then obtain srv where "flagParse e = None" "openLogFile e = None"
      "sqlOpen e ''pg'' (getenv e ''POSTGRES_DSN'') = Opened srv"
    by (auto simp: main_reaches_wait)
  with a have "fst (main e) = Blocked \<and> events (snd (main e)) = waitEvents e"
    using main_blocked [of e srv] by simp
  then show "fst (main e) = Blocked"
    and "EvInterrupt \<notin> set (events (snd (main e)))"
    and "\<forall>d' err'. EvServerShutdown d' err' \<notin> set (events (snd (main e)))"
    using waitEvents_no_shutdown by simp_all
next
  assume a: "EvAwaitInterruption \<in> set (events (snd (main e))) \<and>
    awaitInterruption (signals e) = Some (KilledBy n)"
  then obtain srv where "flagParse e = None" "openLogFile e = None"
      "sqlOpen e ''pg'' (getenv e ''POSTGRES_DSN'') = Opened srv"
    by (auto simp: main_reaches_wait)
  with a have "fst (main e) = Killed n \<and> events (snd (main e)) = waitEvents e @ [EvKilled n]"
    using main_killed [of e srv n] by simp
  then show "fst (main e) = Killed n"
    and "EvInterrupt \<notin> set (events (snd (main e)))"
    and "\<forall>d' err'. EvServerShutdown d' err' \<notin> set (events (snd (main e)))"
    using waitEvents_no_shutdown by simp_all
qed

theorem wait_ends_only_by_interrupt_witness:
  "awaitInterruption [Ignored 28, Interrupt, Interrupt] = Some (Interrupted [Interrupt]) \<and>
   awaitInterruption [Ignored 28, Ignored 17] = None \<and>
   awaitInterruption [Ignored 28, Terminating 15, Interrupt] = Some (KilledBy 15) \<and>
   EvServerShutdown (10 * Second) (Some ''context deadline exceeded'')
     \<in> set (events (snd (main envShutdownFails))) \<and>
   signals envShutdownFails = map Ignored [28] @ Interrupt # [Interrupt] \<and>
   (\<exists>pre post. events (snd (main envShutdownFails)) = pre @ EvAwaitInterruption # EvInterrupt # post \<and>
      EvInterrupt \<notin> set pre \<and> (\<forall>d' err'. EvServerShutdown d' err' \<notin> set pre)) \<and>
   EvAwaitInterruption \<in> set (events (snd (main envTerminated))) \<and>
   fst (main envTerminated) = Killed 15 \<and>
   EvInterrupt \<notin> set (events (snd (main envTerminated))) \<and>
   (\<forall>d' err'. EvServerShutdown d' err' \<notin> set (events (snd (main envTerminated))))"
proof -
  have h: "EvServerShutdown (10 * Second) (Some ''context deadline exceeded'')
             \<in> set (events (snd (main envShutdownFails)))"
    using main_shutdown [OF envShutdownFails_run(1-4)] by (simp add: envShutdownFails_run(5))
  have k: "EvAwaitInterruption \<in> set (events (snd (main envTerminated)))"
    using main_killed [OF envTerminated_run] by (simp add: waitEvents_def)
  have s: "signals envShutdownFails = map Ignored [28] @ Interrupt # [Interrupt]"
    by (simp add: envShutdownFails_def)
  from wait_ends_only_by_interrupt [of "[Ignored 28, Interrupt, Interrupt]" "[Interrupt]" 15
      "10 * Second" "Some ''context deadline exceeded''" envShutdownFails 15]
    wait_ends_only_by_interrupt [of "[Ignored 28, Interrupt, Interrupt]" "[Interrupt]" 15
      "10 * Second" "Some ''context deadline exceeded''" envTerminated 15]
    h k s envTerminated_run(4)
  show ?thesis by simp
qed

text \<open>
  Claim C4. A \<open>GET /version/latest\<close> on which the repository fails with a
  \<open>StorageError\<close> is answered with status 500 and the fixed diagnostic body. The handler
  returns (it does not panic), and all it changes in the process is the log, which gets
  the middleware's entry and exactly one entry for the failure; the response to any
  other request, served after it, is what it would have been without it.
\<close>

theorem storage_error_is_contained:
  assumes "reqMethod r = ''GET''" and "reqPath r = ''/version/latest''"
    and "fetchLatestVersions \<lparr>repoDB = db\<rparr> p = Some (Inl (StorageError cause))"
    and "IsLevelEnabled p InfoLevel"
  shows "createHttpHandler db r newResponseWriter p =
           Some (\<lparr>respHeader = [], respStatus = Some 500, respBody = [Text serverErrorBody]\<rparr>,
                 p\<lparr>events := events p @ [handlingEntry r, failureEntry cause]\<rparr>) \<and>
         map_option fst
           (createHttpHandler db r' w' (p\<lparr>events := events p @ [handlingEntry r, failureEntry cause]\<rparr>)) =
         map_option fst (createHttpHandler db r' w' p)"
proof
  have "IsLevelEnabled p ErrorLevel"
    using assms(4) by (simp add: IsLevelEnabled_def)
  then show "createHttpHandler db r newResponseWriter p =
           Some (\<lparr>respHeader = [], respStatus = Some 500, respBody = [Text serverErrorBody]\<rparr>,
                 p\<lparr>events := events p @ [handlingEntry r, failureEntry cause]\<rparr>)"
    using assms
    by (simp add: createHttpHandler_enabled Router_ServeHTTP_mainRouter
        cleanPath_latest ServeLatestVersions_def logrus_Log_def failureEntry_def WithError_def
        Write_def WriteHeader_def newResponseWriter_def)
  show "map_option fst
           (createHttpHandler db r' w' (p\<lparr>events := events p @ [handlingEntry r, failureEntry cause]\<rparr>)) =
         map_option fst (createHttpHandler db r' w' p)"
    by (rule createHttpHandler_later)
qed

theorem storage_error_is_contained_witness:
  "reqMethod getLatest = ''GET'' \<and> reqPath getLatest = ''/version/latest'' \<and>
   fetchLatestVersions \<lparr>repoDB = db0\<rparr> procClosed = Some (Inl (StorageError ''sql: database is closed'')) \<and>
   IsLevelEnabled procClosed InfoLevel \<and>
   createHttpHandler db0 getLatest newResponseWriter procClosed =
     Some (\<lparr>respHeader = [], respStatus = Some 500, respBody = [Text serverErrorBody]\<rparr>,
           procClosed\<lparr>events :=
             [EvLog \<lparr>Lvl = InfoLevel, Message = ''Handling request.'',
                     Data = [(''method'', ''GET''), (''path'', ''/version/latest'')]\<rparr>,
              EvLog \<lparr>Lvl = ErrorLevel, Message = ''Fetching latest versions failed.'',
                     Data = [(''error'', ''sql: database is closed'')]\<rparr>]\<rparr>)"
proof -
  have h: "reqMethod getLatest = ''GET''" "reqPath getLatest = ''/version/latest''"
    "fetchLatestVersions \<lparr>repoDB = db0\<rparr> procClosed = Some (Inl (StorageError ''sql: database is closed''))"
    "IsLevelEnabled procClosed InfoLevel"
    by (simp_all add: getLatest_def fetchLatestVersions_def sql_Query_def db0_def procClosed_def
        proc0_def IsLevelEnabled_def)
  from storage_error_is_contained [OF h] h show ?thesis
    by (simp add: handlingEntry_def failureEntry_def getLatest_def procClosed_def proc0_def)
qed




text \<open>
  Claim C7. With entries at \<open>InfoLevel\<close> enabled (as they are in every state that
  \<^verbatim>\<open>setupLogger\<close> hands on, \<open>setupLogger_enables_info\<close>), \<^verbatim>\<open>logHandler\<close> writes
  exactly one entry, with the method and the path of the request, and then runs the
  wrapped handler on the same request and response writer. For the handler of
  \<^verbatim>\<open>createHttpHandler\<close>, whatever the request, the result is that of the router alone with
  this one entry put before what the router logs, and the response is the router's.
\<close>

theorem logging_middleware_observes:
  assumes "IsLevelEnabled p InfoLevel"
  shows "logHandler next r w p = next r w (p\<lparr>events := events p @ [handlingEntry r]\<rparr>) \<and>
         createHttpHandler db r w p =
           withEarlier p [handlingEntry r] (Router_ServeHTTP (mainRouter db) r w p) \<and>
         map_option fst (createHttpHandler db r w p) =
           map_option fst (Router_ServeHTTP (mainRouter db) r w p)"
  using assms
  by (simp add: logHandler_enabled createHttpHandler_enabled Router_ServeHTTP_earlier
      createHttpHandler_response fst_withEarlier)

theorem logging_middleware_observes_witness:
  "IsLevelEnabled procClosed InfoLevel \<and>
   handlingEntry getLatest =
     EvLog \<lparr>Lvl = InfoLevel, Message = ''Handling request.'',
            Data = [(''method'', ''GET''), (''path'', ''/version/latest'')]\<rparr> \<and>
   logHandler notFoundHandler getLatest newResponseWriter procClosed =
     Some (\<lparr>respHeader = [], respStatus = Some 404, respBody = [Text ''not found'']\<rparr>,
           procClosed\<lparr>events := [handlingEntry getLatest]\<rparr>) \<and>
   createHttpHandler db0 getLatest newResponseWriter procClosed =
     withEarlier procClosed [handlingEntry getLatest]
       (Router_ServeHTTP (mainRouter db0) getLatest newResponseWriter procClosed) \<and>
   map_option fst (createHttpHandler db0 getLatest newResponseWriter procClosed) =
     map_option fst (Router_ServeHTTP (mainRouter db0) getLatest newResponseWriter procClosed)"
proof -
  have h: "IsLevelEnabled procClosed InfoLevel"
    by (simp add: IsLevelEnabled_def procClosed_def proc0_def)
  from logging_middleware_observes [OF h, of notFoundHandler getLatest newResponseWriter db0] h
  show ?thesis
    by (simp add: handlingEntry_def getLatest_def notFoundHandler_def Write_def WriteHeader_def
        newResponseWriter_def notFoundBody_def procClosed_def proc0_def fst_withEarlier)
qed

text \<open>
  Claim C8, as amended. A request whose path is in its cleaned form and is neither \<open>/\<close>
  nor \<open>/version/latest\<close> gets the fixed not-found response with status 404, whatever its
  method. A request whose path is not in its cleaned form gets a redirect (301) to the
  cleaned path instead.
\<close>

theorem unmatched_clean_path_not_found:
  "(cleanPath (reqPath r) = reqPath r \<and> reqPath r \<noteq> ''/'' \<and> reqPath r \<noteq> ''/version/latest'' \<longrightarrow>
      createHttpHandler db r newResponseWriter p =
        Some (\<lparr>respHeader = [], respStatus = Some 404, respBody = [Text notFoundBody]\<rparr>,
              logrus_Log InfoLevel ''Handling request.'' (requestLog r) p)) \<and>
   (cleanPath (reqPath r) \<noteq> reqPath r \<longrightarrow>
      createHttpHandler db r newResponseWriter p =
        Some (\<lparr>respHeader = [(''Location'', cleanPath (reqPath r))], respStatus = Some 301,
               respBody = []\<rparr>,
              logrus_Log InfoLevel ''Handling request.'' (requestLog r) p))"
  by (simp add: createHttpHandler_def logHandler_def Router_ServeHTTP_mainRouter
      notFoundHandler_def Write_def WriteHeader_def SetHeader_def newResponseWriter_def)

theorem unmatched_clean_path_not_found_witness:
  "cleanPath ''/version'' = ''/version'' \<and> ''/version'' \<noteq> ''/'' \<and> ''/version'' \<noteq> ''/version/latest'' \<and>
   map_option fst
     (createHttpHandler db0 \<lparr>reqMethod = ''DELETE'', reqPath = ''/version''\<rparr> newResponseWriter procOpen) =
     Some \<lparr>respHeader = [], respStatus = Some 404, respBody = [Text ''not found'']\<rparr> \<and>
   cleanPath ''/version/../x'' \<noteq> ''/version/../x'' \<and>
   map_option fst
     (createHttpHandler db0 \<lparr>reqMethod = ''GET'', reqPath = ''/version/../x''\<rparr> newResponseWriter procOpen) =
     Some \<lparr>respHeader = [(''Location'', ''/x'')], respStatus = Some 301, respBody = []\<rparr>"
proof -
  have c1: "cleanPath ''/version'' = ''/version''" and c2: "cleanPath ''/version/../x'' = ''/x''"
    by (simp_all add: cleanPath_def path_Clean_def)
  from unmatched_clean_path_not_found
         [of "\<lparr>reqMethod = ''DELETE'', reqPath = ''/version''\<rparr>" db0 procOpen]
       unmatched_clean_path_not_found
         [of "\<lparr>reqMethod = ''GET'', reqPath = ''/version/../x''\<rparr>" db0 procOpen]
  show ?thesis
    by (simp add: c1 c2 notFoundBody_def)
qed

text \<open>
  The claim C8 as it is stated fails on a path that is not in its cleaned form:
  \<open>/version//latest\<close> is neither \<open>/\<close> nor \<open>/version/latest\<close>, and the response is the
  redirect of the router, not the not-found response.
\<close>

theorem doubled_slash_is_redirected:
  "createHttpHandler db0 \<lparr>reqMethod = ''GET'', reqPath = ''/version//latest''\<rparr> newResponseWriter proc0 =
     Some (\<lparr>respHeader = [(''Location'', ''/version/latest'')], respStatus = Some 301, respBody = []\<rparr>,
           proc0\<lparr>events := [EvLog \<lparr>Lvl = InfoLevel, Message = ''Handling request.'',
                                   Data = [(''method'', ''GET''), (''path'', ''/version//latest'')]\<rparr>]\<rparr>)"
proof -
  have c: "cleanPath ''/version//latest'' = ''/version/latest''"
    by (simp add: cleanPath_def path_Clean_def)
  show ?thesis
    by (simp add: createHttpHandler_def logHandler_def Router_ServeHTTP_mainRouter c
        WriteHeader_def SetHeader_def newResponseWriter_def logrus_Log_def IsLevelEnabled_def
        proc0_def requestLog_def)
qed

text \<open>
  Claim C9. A request for \<open>/\<close> is answered with status 200 and the body \<open>dzialam\<close>,
  whatever its method, whatever the \<^verbatim>\<open>*bun.DB\<close> the handler was created with and whatever
  the state of the handles (closed, failing, \<^verbatim>\<open>nil\<close>).
\<close>

theorem root_is_live:
  assumes "reqPath r = ''/''"
  shows "createHttpHandler db r newResponseWriter p =
           Some (\<lparr>respHeader = [], respStatus = Some 200, respBody = [Text ''dzialam'']\<rparr>,
                 logrus_Log InfoLevel ''Handling request.'' (requestLog r) p)"
  using assms
  by (simp add: createHttpHandler_def logHandler_def Router_ServeHTTP_mainRouter cleanPath_root
      rootHandler_def Write_def WriteHeader_def newResponseWriter_def)

theorem root_is_live_witness:
  "reqPath \<lparr>reqMethod = ''GET'', reqPath = ''/''\<rparr> = ''/'' \<and>
   createHttpHandler db0 \<lparr>reqMethod = ''GET'', reqPath = ''/''\<rparr> newResponseWriter procClosed =
     Some (\<lparr>respHeader = [], respStatus = Some 200, respBody = [Text ''dzialam'']\<rparr>,
           procClosed\<lparr>events := [EvLog \<lparr>Lvl = InfoLevel, Message = ''Handling request.'',
                                        Data = [(''method'', ''GET''), (''path'', ''/'')]\<rparr>]\<rparr>)"
  using root_is_live [of "\<lparr>reqMethod = ''GET'', reqPath = ''/''\<rparr>" db0 procClosed]
  by (simp add: logrus_Log_def IsLevelEnabled_def procClosed_def proc0_def requestLog_def)

text \<open>
  Claim C10. \<^verbatim>\<open>shutdown\<close> ends the process with exit status 0 whatever
  \<^verbatim>\<open>server.Shutdown\<close> returned: its last event is \<^verbatim>\<open>Exit(0)\<close>, on the error branch as on
  the other.
\<close>

theorem shutdown_exits_zero:
  "fst (shutdown e ctx server p) = Exited 0 \<and>
   last (events (snd (shutdown e ctx server p))) = EvExit 0"
  by (simp add: shutdown_def logrus_Exit_def Let_def)

end
